theory Spec2Isabelle
  imports Main
begin

section \<open>Exceptions and results\<close>

text \<open>
  The scrapers are Python programs driving a browser (Selenium), an HTTP client (requests)
  and the file system. Every call that can raise is modelled by a value of type
  \<open>exn + 'a\<close>: \<open>Inl e\<close> is the raised exception, \<open>Inr v\<close> the returned value. A
  \<^verbatim>\<open>try ... except Exception\<close> block is a case distinction on such a value.
  Logging (\<^verbatim>\<open>print\<close>) and delays (\<^verbatim>\<open>time.sleep\<close>) have no effect on the returned data and
  are left out.
\<close>

datatype exn =
    WebDriverException
  | TimeoutException
  | NoSuchElementException
  | StaleElementReferenceException
  | ConnectionError
  | HTTPError
  | OSError
  | OverflowError
  | IndexError
  | TypeError
  | ValueError

definition bind_result :: "exn + 'a \<Rightarrow> ('a \<Rightarrow> exn + 'b) \<Rightarrow> exn + 'b" where
  "bind_result r f = (case r of Inl e \<Rightarrow> Inl e | Inr v \<Rightarrow> f v)"

section \<open>Python strings\<close>

text \<open>
  A Python \<^verbatim>\<open>str\<close> is a sequence of code points. The model keeps the code points below
  256 (Latin-1, which holds every letter of the French labels the scrapers look for), one
  \<^typ>\<open>char\<close> each, so \<^const>\<open>length\<close> and \<^const>\<open>take\<close> count what Python's \<^verbatim>\<open>len\<close> and
  slices count. The character classes are those of Python 3 on that range:
  \<^verbatim>\<open>\d\<close> is 0-9, \<^verbatim>\<open>\s\<close> and \<^verbatim>\<open>str.strip\<close> share one set of blanks, \<^verbatim>\<open>\w\<close> is the
  alphanumeric code points and the underscore.
\<close>

definition is_digit :: "char \<Rightarrow> bool" where
  "is_digit c = (let n = (of_char c :: nat) in 48 \<le> n \<and> n \<le> 57)"

definition is_space :: "char \<Rightarrow> bool" where
  "is_space c =
     (let n = (of_char c :: nat)
      in (9 \<le> n \<and> n \<le> 13) \<or> (28 \<le> n \<and> n \<le> 32) \<or> n = 133 \<or> n = 160)"

definition is_word :: "char \<Rightarrow> bool" where
  "is_word c =
     (let n = (of_char c :: nat)
      in (48 \<le> n \<and> n \<le> 57) \<or> (65 \<le> n \<and> n \<le> 90) \<or> n = 95 \<or> (97 \<le> n \<and> n \<le> 122)
         \<or> n = 170 \<or> n = 178 \<or> n = 179 \<or> n = 181 \<or> n = 185 \<or> n = 186
         \<or> (188 \<le> n \<and> n \<le> 190) \<or> (192 \<le> n \<and> n \<le> 214) \<or> (216 \<le> n \<and> n \<le> 246)
         \<or> 248 \<le> n)"

definition lower_char :: "char \<Rightarrow> char" where
  "lower_char c =
     (let n = (of_char c :: nat)
      in if (65 \<le> n \<and> n \<le> 90) \<or> (192 \<le> n \<and> n \<le> 214) \<or> (216 \<le> n \<and> n \<le> 222)
         then char_of (n + 32) else c)"

definition lower :: "string \<Rightarrow> string" where
  "lower s = map lower_char s"

definition strip :: "string \<Rightarrow> string" where
  "strip s = rev (dropWhile is_space (rev (dropWhile is_space s)))"

fun startswith :: "string \<Rightarrow> string \<Rightarrow> bool" where
  "startswith s [] = True"
| "startswith [] (p # ps) = False"
| "startswith (c # cs) (p # ps) = (c = p \<and> startswith cs ps)"

text \<open>\<open>str_in p s\<close> is Python's \<^verbatim>\<open>p in s\<close> on strings: \<open>p\<close> occurs in \<open>s\<close> as a substring.\<close>

fun str_in :: "string \<Rightarrow> string \<Rightarrow> bool" where
  "str_in p [] = (p = [])"
| "str_in p (c # cs) = (startswith (c # cs) p \<or> str_in p cs)"

text \<open>
  \<^verbatim>\<open>str(n)\<close>, and the value of a run of decimal digits. Python's integers are
  unbounded.
\<close>

definition digit_char :: "nat \<Rightarrow> char" where
  "digit_char d = char_of (48 + d)"

definition digit_val :: "char \<Rightarrow> nat" where
  "digit_val c = of_char c - 48"

fun str_nat :: "nat \<Rightarrow> string" where
  "str_nat n = (if n < 10 then [digit_char n] else str_nat (n div 10) @ [digit_char (n mod 10)])"

declare str_nat.simps [simp del]

definition str_int :: "int \<Rightarrow> string" where
  "str_int i = (if i < 0 then CHR ''-'' # str_nat (nat (- i)) else str_nat (nat i))"

definition int_of_digits :: "string \<Rightarrow> int" where
  "int_of_digits s = foldl (\<lambda>a c. 10 * a + int (digit_val c)) 0 s"

text \<open>
  \<^verbatim>\<open>int(s)\<close> on a run of decimal digits. CPython (3.11 and later, with the default
  setting of \<^verbatim>\<open>sys.set_int_max_str_digits\<close>) refuses a text of more than 4300 digits,
  leading zeros counted, and raises \<^verbatim>\<open>ValueError\<close>.
\<close>

definition int_max_str_digits :: nat where
  "int_max_str_digits = 4300"

definition py_int :: "string \<Rightarrow> exn + int" where
  "py_int s = (if int_max_str_digits < length s then Inl ValueError else Inr (int_of_digits s))"

text \<open>
  \<^verbatim>\<open>re.search(r'(\d+)', s)\<close>: the leftmost maximal run of digits, \<open>None\<close> when \<open>s\<close> has
  no digit.
\<close>

definition re_search_digits :: "string \<Rightarrow> string option" where
  "re_search_digits s =
     (let rest = dropWhile (\<lambda>c. \<not> is_digit c) s
      in if rest = [] then None else Some (takeWhile is_digit rest))"

text \<open>\<^verbatim>\<open>re.sub(r'\s+', '_', s)\<close>: every maximal run of blanks becomes one underscore.\<close>

function sub_spaces :: "string \<Rightarrow> string" where
  "sub_spaces [] = []"
| "sub_spaces (c # cs) =
     (if is_space c then CHR ''_'' # sub_spaces (dropWhile is_space cs) else c # sub_spaces cs)"
  by pat_completeness auto
termination
  by (relation "measure length") (auto simp: less_Suc_eq_le length_dropWhile_le)

section \<open>Folder identity (\<^verbatim>\<open>create_folder_name\<close>)\<close>

text \<open>
  \<^verbatim>\<open>avito_initial.py\<close>, \<^verbatim>\<open>create_folder_name(title, idx)\<close>: delete what
  \<^verbatim>\<open>[^\w\s-]\<close> matches, replace the runs of blanks, keep 50 characters, then put
  \<^verbatim>\<open>f"{idx}_"\<close> in front.
\<close>

definition create_folder_name :: "string \<Rightarrow> int \<Rightarrow> string" where
  "create_folder_name title idx =
     (let folder_name = filter (\<lambda>c. is_word c \<or> is_space c \<or> c = CHR ''-'') title;
          folder_name = sub_spaces folder_name;
          folder_name = take 50 folder_name
      in str_int idx @ ''_'' @ folder_name)"

section \<open>Dates (\<^verbatim>\<open>datetime\<close>, \<^verbatim>\<open>timedelta\<close>, \<^verbatim>\<open>strftime\<close>)\<close>

text \<open>
  A \<^verbatim>\<open>datetime\<close> is the number of microseconds since 0001-01-01 00:00:00, the least
  value of the type; the greatest is 9999-12-31 23:59:59.999999. A \<^verbatim>\<open>timedelta\<close> is a
  number of microseconds whose whole days do not exceed 999999999. Python raises
  \<^verbatim>\<open>OverflowError\<close> when a constructor or a subtraction leaves these ranges.
\<close>

type_synonym datetime = int
type_synonym timedelta = int

definition us_per_second :: int where
  "us_per_second = 1000000"

definition us_per_day :: int where
  "us_per_day = 86400 * us_per_second"

definition max_ordinal :: int where
  "max_ordinal = 3652059"

definition datetime_ok :: "datetime \<Rightarrow> bool" where
  "datetime_ok t = (0 \<le> t \<and> t < max_ordinal * us_per_day)"

definition timedelta_seconds :: "int \<Rightarrow> exn + timedelta" where
  "timedelta_seconds s =
     (if 999999999 < \<bar>s div 86400\<bar> then Inl OverflowError else Inr (s * us_per_second))"

definition timedelta_minutes :: "int \<Rightarrow> exn + timedelta" where
  "timedelta_minutes n = timedelta_seconds (60 * n)"

definition timedelta_hours :: "int \<Rightarrow> exn + timedelta" where
  "timedelta_hours n = timedelta_seconds (3600 * n)"

definition timedelta_days :: "int \<Rightarrow> exn + timedelta" where
  "timedelta_days n = timedelta_seconds (86400 * n)"

definition datetime_sub :: "datetime \<Rightarrow> timedelta \<Rightarrow> exn + datetime" where
  "datetime_sub t d = (if datetime_ok (t - d) then Inr (t - d) else Inl OverflowError)"

definition is_leap :: "int \<Rightarrow> bool" where
  "is_leap y = (y mod 4 = 0 \<and> (y mod 100 \<noteq> 0 \<or> y mod 400 = 0))"

definition days_in_month :: "bool \<Rightarrow> int \<Rightarrow> int" where
  "days_in_month leap m =
     (if m = 2 then (if leap then 29 else 28)
      else if m = 4 \<or> m = 6 \<or> m = 9 \<or> m = 11 then 30 else 31)"

definition days_before_month :: "bool \<Rightarrow> int \<Rightarrow> int" where
  "days_before_month leap m =
     [0, 31, 59, 90, 120, 151, 181, 212, 243, 273, 304, 334] ! nat (m - 1)
       + (if 2 < m \<and> leap then 1 else 0)"

definition days_before_year :: "int \<Rightarrow> int" where
  "days_before_year y = (y - 1) * 365 + (y - 1) div 4 - (y - 1) div 100 + (y - 1) div 400"

text \<open>The constructor \<^verbatim>\<open>datetime(y, m, d, hh, mm, ss, us)\<close>, to write concrete instants.\<close>

definition datetime_of :: "int \<Rightarrow> int \<Rightarrow> int \<Rightarrow> int \<Rightarrow> int \<Rightarrow> int \<Rightarrow> int \<Rightarrow> datetime" where
  "datetime_of y m d hh mm ss us =
     (((days_before_year y + days_before_month (is_leap y) m + d - 1) * 86400
        + hh * 3600 + mm * 60 + ss) * us_per_second + us)"

text \<open>
  The calendar date of day number \<open>n\<close> (0 is 0001-01-01), by the cycles of 400, 100, 4
  and 1 years of the proleptic Gregorian calendar.
\<close>

definition ord2ymd :: "int \<Rightarrow> int \<times> int \<times> int" where
  "ord2ymd n0 =
     (let n400 = n0 div 146097; n = n0 mod 146097;
          n100 = n div 36524; n = n mod 36524;
          n4 = n div 1461; n = n mod 1461;
          n1 = n div 365; n = n mod 365;
          year = n400 * 400 + 1 + n100 * 100 + n4 * 4 + n1
      in if n1 = 4 \<or> n100 = 4 then (year - 1, 12, 31)
         else
           let leap = (n1 = 3 \<and> (n4 \<noteq> 24 \<or> n100 = 3));
               month = (n + 50) div 32;
               preceding = days_before_month leap month
           in if n < preceding
              then (year, month - 1, n - (preceding - days_in_month leap (month - 1)) + 1)
              else (year, month, n - preceding + 1))"

definition zfill :: "nat \<Rightarrow> string \<Rightarrow> string" where
  "zfill w s = replicate (w - length s) CHR ''0'' @ s"

text \<open>
  \<^verbatim>\<open>strftime("%Y-%m-%d")\<close>. CPython hands the format to the C library; with glibc
  \<^verbatim>\<open>%Y\<close> writes the year without padding (505, not 0505), while month and day are
  written with two digits.
\<close>

definition strftime_Ymd :: "datetime \<Rightarrow> string" where
  "strftime_Ymd t =
     (case ord2ymd (t div us_per_day) of
        (y, m, d) \<Rightarrow> str_int y @ ''-'' @ zfill 2 (str_int m) @ ''-'' @ zfill 2 (str_int d))"

text \<open>\<^verbatim>\<open>strftime("%Y-%m-%d %H:%M:%S")\<close>: the microseconds are not written.\<close>

definition strftime_YmdHMS :: "datetime \<Rightarrow> string" where
  "strftime_YmdHMS t =
     (let s = (t div us_per_second) mod 86400
      in strftime_Ymd t @ '' '' @ zfill 2 (str_int (s div 3600)) @ '':''
           @ zfill 2 (str_int (s mod 3600 div 60)) @ '':'' @ zfill 2 (str_int (s mod 60)))"


section \<open>Relative dates (\<^verbatim>\<open>convert_relative_date\<close>)\<close>

text \<open>
  \<^verbatim>\<open>avito_initial.py\<close>, \<^verbatim>\<open>convert_relative_date(relative_date)\<close>. The clock reading
  \<^verbatim>\<open>datetime.now()\<close> is the parameter \<open>now\<close>. The test for "quelques instants" is made on
  the lowered phrase, the tests for the units on the phrase as it is, in the order of the
  source. \<^verbatim>\<open>int(match.group(1))\<close> is evaluated before the tests for the units.
\<close>

definition convert_relative_date :: "datetime \<Rightarrow> string \<Rightarrow> exn + string" where
  "convert_relative_date now relative_date =
     (if str_in ''quelques instants'' (lower relative_date) then Inr (strftime_YmdHMS now)
      else
        case re_search_digits relative_date of
          None \<Rightarrow> Inr ''Date inconnue''
        | Some g \<Rightarrow>
            bind_result (py_int g) (\<lambda>num.
              if str_in ''minute'' relative_date then
                bind_result (timedelta_minutes num) (\<lambda>td.
                bind_result (datetime_sub now td) (\<lambda>exact_date.
                Inr (strftime_YmdHMS exact_date)))
              else if str_in ''heure'' relative_date then
                bind_result (timedelta_hours num) (\<lambda>td.
                bind_result (datetime_sub now td) (\<lambda>exact_date.
                Inr (strftime_YmdHMS exact_date)))
              else if str_in ''jour'' relative_date then
                bind_result (timedelta_days num) (\<lambda>td.
                bind_result (datetime_sub now td) (\<lambda>exact_date.
                Inr (strftime_Ymd exact_date)))
              else if str_in ''mois'' relative_date then
                bind_result (timedelta_days (30 * num)) (\<lambda>td.
                bind_result (datetime_sub now td) (\<lambda>exact_date.
                Inr (strftime_Ymd exact_date)))
              else if str_in ''an'' relative_date then
                bind_result (timedelta_days (365 * num)) (\<lambda>td.
                bind_result (datetime_sub now td) (\<lambda>exact_date.
                Inr (strftime_Ymd exact_date)))
              else Inr ''Date inconnue''))"

section \<open>Documents as the scrapers see them\<close>

text \<open>
  The browser is outside the program. What the program sees of it is the outcome of each
  query, so a document is modelled by these outcomes. A located element is the outcome of
  reading its \<^verbatim>\<open>.text\<close>; \<^verbatim>\<open>find_elements(selector)\<close> raises or gives the matched elements
  in document order; \<^verbatim>\<open>find_element(selector)\<close> gives the first of them and raises
  \<^verbatim>\<open>NoSuchElementException\<close> when there is none. The document does not change while one
  card or one page is read.
\<close>

type_synonym element = "exn + string"
type_synonym lookup = "exn + element list"

definition find_element :: "lookup \<Rightarrow> exn + element" where
  "find_element l =
     (case l of
        Inl e \<Rightarrow> Inl e
      | Inr [] \<Rightarrow> Inl NoSuchElementException
      | Inr (el # els) \<Rightarrow> Inr el)"

text \<open>A table row: the identity is an integer in memory, every other column is text.\<close>

datatype cell = IntCell int | StrCell string

section \<open>Discovery (\<^verbatim>\<open>avito_initial.py\<close>, \<^verbatim>\<open>scrape_avito\<close>)\<close>

text \<open>
  One listing card: the lookups the loop body makes on it, the \<^verbatim>\<open>href\<close> attribute, and
  the clock reading at the moment its date is converted.
\<close>

record listing =
  title_lookup :: lookup
  price_lookup :: lookup
  pub_date_lookup :: lookup
  year_lookup :: lookup
  fuel_lookup :: lookup
  transmission_lookup :: lookup
  href :: "exn + string option"
  creator_lookup :: lookup
  clock :: datetime

text \<open>
  The expression every column uses,
  \<^verbatim>\<open>listing.find_element(sel).text.strip() if listing.find_elements(sel) else default\<close>.
\<close>

definition text_or_default :: "lookup \<Rightarrow> string \<Rightarrow> exn + string" where
  "text_or_default l dflt =
     (case l of
        Inl e \<Rightarrow> Inl e
      | Inr els \<Rightarrow>
          if els \<noteq> [] then
            bind_result (find_element l) (\<lambda>el.
            bind_result el (\<lambda>t. Inr (strip t)))
          else Inr dflt)"

text \<open>\<^verbatim>\<open>listing.get_attribute("href") if listing.get_attribute("href") else "N/A"\<close>.\<close>

definition link_or_default :: "exn + string option \<Rightarrow> exn + string" where
  "link_or_default h =
     (case h of
        Inl e \<Rightarrow> Inl e
      | Inr None \<Rightarrow> Inr ''N/A''
      | Inr (Some u) \<Rightarrow> if u = [] then Inr ''N/A'' else Inr u)"

text \<open>The seller kind: its own \<^verbatim>\<open>try\<close> with a bare \<^verbatim>\<open>except: pass\<close>.\<close>

definition creator_or_default :: "lookup \<Rightarrow> string" where
  "creator_or_default l =
     (case find_element l of
        Inl e \<Rightarrow> ''Particulier''
      | Inr (Inl e) \<Rightarrow> ''Particulier''
      | Inr (Inr t) \<Rightarrow> strip t)"

text \<open>
  The body of the \<^verbatim>\<open>try\<close> of the loop over the cards: \<open>Inl\<close> is an exception that
  reaches the \<^verbatim>\<open>except Exception\<close> of the card, \<open>Inr\<close> the row that is appended.
\<close>

definition scrape_listing :: "listing \<Rightarrow> int \<Rightarrow> exn + cell list" where
  "scrape_listing l listing_id_counter =
     bind_result (text_or_default (title_lookup l) ''N/A'') (\<lambda>title.
     bind_result (text_or_default (price_lookup l) (''Prix non sp'' @ [CHR 0xE9] @ ''cifi'' @ [CHR 0xE9])) (\<lambda>price.
     bind_result (text_or_default (pub_date_lookup l) ''N/A'') (\<lambda>pub_date_raw.
     bind_result (convert_relative_date (clock l) pub_date_raw) (\<lambda>pub_date.
     bind_result (text_or_default (year_lookup l) ''N/A'') (\<lambda>year.
     bind_result (text_or_default (fuel_lookup l) ''N/A'') (\<lambda>fuel_type.
     bind_result (text_or_default (transmission_lookup l) ''N/A'') (\<lambda>transmission.
     bind_result (link_or_default (href l)) (\<lambda>link.
       let creator = creator_or_default (creator_lookup l);
           folder_name = create_folder_name title listing_id_counter
       in Inr [IntCell listing_id_counter, StrCell title, StrCell price, StrCell pub_date,
               StrCell year, StrCell fuel_type, StrCell transmission, StrCell creator,
               StrCell link, StrCell folder_name]))))))))"

text \<open>
  The loop over the cards of one page. The state is the pair of the rows gathered so far
  and \<^verbatim>\<open>listing_id_counter\<close>; a card whose body raises is logged and changes nothing.
\<close>

fun scrape_listings :: "listing list \<Rightarrow> cell list list \<times> int \<Rightarrow> cell list list \<times> int" where
  "scrape_listings [] st = st"
| "scrape_listings (l # ls) (data, listing_id_counter) =
     (case scrape_listing l listing_id_counter of
        Inl e \<Rightarrow> scrape_listings ls (data, listing_id_counter)
      | Inr row \<Rightarrow> scrape_listings ls (data @ [row], listing_id_counter + 1))"

text \<open>
  One results page: navigation (outside every \<^verbatim>\<open>try\<close>), the wait for the container, the
  scroll, the container and its cards.
\<close>

record page =
  page_get_raises :: "exn option"
  page_wait_raises :: "exn option"
  page_scroll_raises :: "exn option"
  page_container_raises :: "exn option"
  page_listings :: "exn + listing list"

definition scrape_page :: "page \<Rightarrow> cell list list \<times> int \<Rightarrow> exn + cell list list \<times> int" where
  "scrape_page p st =
     (case page_get_raises p of
        Some e \<Rightarrow> Inl e
      | None \<Rightarrow>
          (case page_wait_raises p of
             Some e \<Rightarrow> Inr st
           | None \<Rightarrow>
               (case page_scroll_raises p of
                  Some e \<Rightarrow> Inr st
                | None \<Rightarrow>
                    (case page_container_raises p of
                       Some e \<Rightarrow> Inr st
                     | None \<Rightarrow>
                         (case page_listings p of
                            Inl e \<Rightarrow> Inr st
                          | Inr listings \<Rightarrow>
                              if listings = [] then Inr st
                              else Inr (scrape_listings listings st))))))"

fun scrape_pages :: "(int \<Rightarrow> page) \<Rightarrow> int list \<Rightarrow> cell list list \<times> int \<Rightarrow> exn + cell list list \<times> int" where
  "scrape_pages site [] st = Inr st"
| "scrape_pages site (n # ns) st =
     (case scrape_page (site n) st of
        Inl e \<Rightarrow> Inl e
      | Inr st' \<Rightarrow> scrape_pages site ns st')"

text \<open>
  \<^verbatim>\<open>scrape_avito(start_page, end_page)\<close>: the pages of \<^verbatim>\<open>range(start_page, end_page + 1)\<close>
  in order, from no row and the counter at 1. \<open>site n\<close> is what the browser shows for
  page \<open>n\<close>.
\<close>

definition scrape_avito :: "(int \<Rightarrow> page) \<Rightarrow> int \<Rightarrow> int \<Rightarrow> exn + cell list list" where
  "scrape_avito site start_page end_page =
     (case scrape_pages site [start_page..end_page] ([], 1) of
        Inl e \<Rightarrow> Inl e
      | Inr (data, listing_id_counter) \<Rightarrow> Inr data)"

text \<open>
  The state of a run is well numbered when the counter is one more than the number of
  rows and the rows carry the identities 1, 2, ... in order.
\<close>

definition numbered :: "cell list list \<times> int \<Rightarrow> bool" where
  "numbered st =
     (case st of (data, listing_id_counter) \<Rightarrow>
        listing_id_counter = 1 + int (length data)
        \<and> map (take 1) data = map (\<lambda>i. [IntCell i]) [1..int (length data)])"

section \<open>Paths (\<^verbatim>\<open>os.path\<close>, POSIX)\<close>

definition path_join :: "string \<Rightarrow> string \<Rightarrow> string" where
  "path_join a b =
     (if startswith b ''/'' then b
      else if a = [] \<or> last a = CHR ''/'' then a @ b
      else a @ ''/'' @ b)"

definition basename :: "string \<Rightarrow> string" where
  "basename p = rev (takeWhile (\<lambda>c. c \<noteq> CHR ''/'') (rev p))"

text \<open>\<^verbatim>\<open>sep.join(xs)\<close>.\<close>

fun str_join :: "string \<Rightarrow> string list \<Rightarrow> string" where
  "str_join sep [] = []"
| "str_join sep [x] = x"
| "str_join sep (x # y # ys) = x @ sep @ str_join sep (y # ys)"

section \<open>Image download (\<^verbatim>\<open>download_image\<close>)\<close>

text \<open>
  The network and the disk are outside the program. A response tells whether
  \<^verbatim>\<open>raise_for_status\<close> raises, carries its \<^verbatim>\<open>Content-Type\<close> (empty when the header is
  absent) and the chunks its body yields, and tells whether the stream breaks after the
  last of them. The world gives the response to each URL and tells which
  \<^verbatim>\<open>os.makedirs\<close>, which \<^verbatim>\<open>open\<close> and which \<^verbatim>\<open>write\<close> (the k-th one to a path,
  from 0) fail. The files on disk are a map from paths to contents.
\<close>

record response =
  status_raises :: bool
  content_type :: string
  body_chunks :: "string list"
  body_raises :: bool

record world =
  http_get :: "string \<Rightarrow> exn + response"
  makedirs_raises :: "string \<Rightarrow> bool"
  open_raises :: "string \<Rightarrow> bool"
  write_raises :: "string \<Rightarrow> nat \<Rightarrow> bool"

type_synonym files = "string \<Rightarrow> string option"

text \<open>
  The loop \<^verbatim>\<open>for chunk in response.iter_content(...): f.write(chunk)\<close>: the exception that
  stops it, if any, and the files as the writes made before it left them.
\<close>

fun write_chunks :: "world \<Rightarrow> string \<Rightarrow> nat \<Rightarrow> string list \<Rightarrow> files \<Rightarrow> files \<times> exn option" where
  "write_chunks w path k [] fs = (fs, None)"
| "write_chunks w path k (chunk # chunks) fs =
     (if write_raises w path k then (fs, Some OSError)
      else write_chunks w path (Suc k) chunks
             (fs(path \<mapsto> (case fs path of None \<Rightarrow> chunk | Some written \<Rightarrow> written @ chunk))))"

text \<open>The extension chosen from the \<^verbatim>\<open>Content-Type\<close> of the response.\<close>

definition extension_for :: "string \<Rightarrow> string" where
  "extension_for ct =
     (if str_in ''png'' ct then ''.png''
      else if str_in ''jpeg'' ct \<or> str_in ''jpg'' ct then ''.jpg''
      else ''.jpg'')"

text \<open>The body of the \<^verbatim>\<open>try\<close> of \<^verbatim>\<open>download_image\<close>; \<^verbatim>\<open>open(path, 'wb')\<close> creates the file empty.\<close>

definition download_image_try :: "world \<Rightarrow> string \<Rightarrow> string \<Rightarrow> string \<Rightarrow> files \<Rightarrow> files \<times> (exn + string)" where
  "download_image_try w image_url folder_path image_name fs =
     (case http_get w image_url of
        Inl e \<Rightarrow> (fs, Inl e)
      | Inr response \<Rightarrow>
          if status_raises response then (fs, Inl HTTPError)
          else
            let extension = extension_for (content_type response);
                image_path = path_join folder_path (image_name @ extension)
            in if open_raises w image_path then (fs, Inl OSError)
               else
                 (case write_chunks w image_path 0 (body_chunks response) (fs(image_path \<mapsto> [])) of
                    (fs', Some e) \<Rightarrow> (fs', Inl e)
                  | (fs', None) \<Rightarrow>
                      if body_raises response then (fs', Inl ConnectionError)
                      else (fs', Inr (basename image_path))))"

text \<open>\<^verbatim>\<open>download_image\<close>: \<^verbatim>\<open>except Exception\<close> logs and returns \<^verbatim>\<open>None\<close>.\<close>

definition download_image :: "world \<Rightarrow> string \<Rightarrow> string \<Rightarrow> string \<Rightarrow> files \<Rightarrow> files \<times> string option" where
  "download_image w image_url folder_path image_name fs =
     (case download_image_try w image_url folder_path image_name fs of
        (fs', Inl e) \<Rightarrow> (fs', None)
      | (fs', Inr name) \<Rightarrow> (fs', Some name))"

section \<open>Detail pages (\<^verbatim>\<open>scrape_details\<close>)\<close>

text \<open>
  An image element is the outcome of \<^verbatim>\<open>get_attribute("src")\<close>. The loop
  \<^verbatim>\<open>for i, img in enumerate(image_elements)\<close> of \<^verbatim>\<open>scrape_details\<close> (the same text in
  \<^verbatim>\<open>avito_main.py\<close> and \<^verbatim>\<open>avito_scraper.py\<close>): \<open>i\<close> is the index of \<open>img\<close>, the state is the
  files and \<^verbatim>\<open>images_paths\<close>.
\<close>

type_synonym image_element = "exn + string option"

fun download_images :: "world \<Rightarrow> string \<Rightarrow> string \<Rightarrow> nat \<Rightarrow> image_element list \<Rightarrow> files \<times> string list \<Rightarrow> files \<times> string list" where
  "download_images w listing_folder folder_name i [] st = st"
| "download_images w listing_folder folder_name i (img # imgs) (fs, images_paths) =
     (case img of
        Inl e \<Rightarrow> download_images w listing_folder folder_name (Suc i) imgs (fs, images_paths)
      | Inr None \<Rightarrow> download_images w listing_folder folder_name (Suc i) imgs (fs, images_paths)
      | Inr (Some img_src) \<Rightarrow>
          if img_src = [] then
            download_images w listing_folder folder_name (Suc i) imgs (fs, images_paths)
          else
            (case download_image w img_src listing_folder (''image_'' @ str_int (int i + 1)) fs of
               (fs', None) \<Rightarrow>
                 download_images w listing_folder folder_name (Suc i) imgs (fs', images_paths)
             | (fs', Some image_filename) \<Rightarrow>
                 if image_filename = [] then
                   download_images w listing_folder folder_name (Suc i) imgs (fs', images_paths)
                 else
                   download_images w listing_folder folder_name (Suc i) imgs
                     (fs', images_paths @ [path_join folder_name image_filename])))"

text \<open>
  A labelled attribute of the page (a \<^verbatim>\<open>div\<close> of class \<^verbatim>\<open>sc-19cngu6-1\<close>) gives its value
  span and its label span; a candidate equipment gives its parent element and its own
  text. A detail page gives the outcome of each query \<^verbatim>\<open>scrape_details\<close> makes. The click
  on "Voir plus" is inside a \<^verbatim>\<open>try\<close> with a bare \<^verbatim>\<open>except: pass\<close> and returns nothing: the
  page is the document as it stands after it.
\<close>

record detail_element =
  value_span :: "exn + element"
  label_span :: "exn + element"

record equipment_element =
  eq_parent :: "exn + element"
  eq_text :: element

record detail_page =
  detail_get_raises :: "exn option"
  detail_scroll_raises :: "exn option"
  picture_imgs :: "exn + image_element list"
  gallery_imgs :: "exn + image_element list"
  location_span :: "exn + element"
  detail_divs :: "exn + detail_element list"
  category_span :: "exn + element"
  equipment_spans :: "exn + equipment_element list"

record detail_fields =
  car_type :: string
  location :: string
  mileage :: string
  brand :: string
  model :: string
  doors :: string
  origin :: string
  first_hand :: string
  fiscal_power :: string
  condition :: string
  equipment_text :: string
  seller_city :: string

definition unknown_fields :: detail_fields where
  "unknown_fields =
     \<lparr>car_type = ''N/A'', location = ''N/A'', mileage = ''N/A'', brand = ''N/A'',
      model = ''N/A'', doors = ''N/A'', origin = ''N/A'', first_hand = ''N/A'',
      fiscal_power = ''N/A'', condition = ''N/A'', equipment_text = ''N/A'',
      seller_city = ''N/A''\<rparr>"

text \<open>
  The images: the first selector, the second one when the first matched nothing, then the
  loop; an exception of either query is caught by the \<^verbatim>\<open>try\<close> around the whole block.
\<close>

definition harvest_images :: "world \<Rightarrow> detail_page \<Rightarrow> string \<Rightarrow> string \<Rightarrow> files \<Rightarrow> files \<times> string list" where
  "harvest_images w p listing_folder folder_name fs =
     (case picture_imgs p of
        Inl e \<Rightarrow> (fs, [])
      | Inr image_elements \<Rightarrow>
          (case (if image_elements = [] then gallery_imgs p else Inr image_elements) of
             Inl e \<Rightarrow> (fs, [])
           | Inr image_elements \<Rightarrow>
               download_images w listing_folder folder_name 0 image_elements (fs, [])))"

text \<open>The seller's location in the header of the page, and the city taken from it.\<close>

definition read_location :: "exn + element \<Rightarrow> detail_fields \<Rightarrow> detail_fields" where
  "read_location span f =
     (case span of
        Inl e \<Rightarrow> f
      | Inr (Inl e) \<Rightarrow> f
      | Inr (Inr t) \<Rightarrow>
          let loc = strip t
          in f\<lparr>location := loc,
               seller_city := (if CHR '','' \<in> set loc then takeWhile (\<lambda>c. c \<noteq> CHR '','') loc
                               else loc)\<rparr>)"

text \<open>The chain of \<^verbatim>\<open>if ... elif ...\<close> on the label, in the order of the source.\<close>

definition assign_label :: "string \<Rightarrow> string \<Rightarrow> detail_fields \<Rightarrow> detail_fields" where
  "assign_label label v f =
     (if str_in (''Ann'' @ [CHR 0xE9] @ ''e-Mod'' @ [CHR 0xE8] @ ''le'') label then f
      else if str_in (''Type de v'' @ [CHR 0xE9] @ ''hicule'') label
              \<or> str_in (''Cat'' @ [CHR 0xE9] @ ''gorie'') label then f\<lparr>car_type := v\<rparr>
      else if str_in (''Kilom'' @ [CHR 0xE9] @ ''trage'') label then f\<lparr>mileage := v\<rparr>
      else if str_in ''Marque'' label then f\<lparr>brand := v\<rparr>
      else if str_in (''Mod'' @ [CHR 0xE8] @ ''le'') label then f\<lparr>model := v\<rparr>
      else if str_in ''Nombre de portes'' label then f\<lparr>doors := v\<rparr>
      else if str_in ''Origine'' label then f\<lparr>origin := v\<rparr>
      else if str_in (''Premi'' @ [CHR 0xE8] @ ''re main'') label then f\<lparr>first_hand := v\<rparr>
      else if str_in ''Puissance fiscale'' label then f\<lparr>fiscal_power := v\<rparr>
      else if str_in ([CHR 0xC9] @ ''tat'') label then f\<lparr>condition := v\<rparr>
      else if str_in ''Secteur'' label then f\<lparr>location := v\<rparr>
      else f)"

text \<open>
  One turn of the loop over the labelled attributes: both spans are looked up, then both
  texts are read; any exception skips the attribute (\<^verbatim>\<open>continue\<close>).
\<close>

definition scan_detail :: "detail_element \<Rightarrow> detail_fields \<Rightarrow> detail_fields" where
  "scan_detail element f =
     (case value_span element of
        Inl e \<Rightarrow> f
      | Inr value_element \<Rightarrow>
          (case label_span element of
             Inl e \<Rightarrow> f
           | Inr label_element \<Rightarrow>
               (case value_element of
                  Inl e \<Rightarrow> f
                | Inr vt \<Rightarrow>
                    (case label_element of
                       Inl e \<Rightarrow> f
                     | Inr lt \<Rightarrow> assign_label (strip lt) (strip vt) f))))"

fun scan_details :: "detail_element list \<Rightarrow> detail_fields \<Rightarrow> detail_fields" where
  "scan_details [] f = f"
| "scan_details (element # elements) f = scan_details elements (scan_detail element f)"

definition read_category :: "exn + element \<Rightarrow> detail_fields \<Rightarrow> detail_fields" where
  "read_category span f =
     (if car_type f = ''N/A'' then
        (case span of
           Inl e \<Rightarrow> f
         | Inr (Inl e) \<Rightarrow> f
         | Inr (Inr t) \<Rightarrow> f\<lparr>car_type := strip t\<rparr>)
      else f)"

fun collect_equipment :: "equipment_element list \<Rightarrow> string list \<Rightarrow> exn + string list" where
  "collect_equipment [] equipment_list = Inr equipment_list"
| "collect_equipment (eq # eqs) equipment_list =
     (case eq_parent eq of
        Inl e \<Rightarrow> Inl e
      | Inr (Inl e) \<Rightarrow> Inl e
      | Inr (Inr parent_text) \<Rightarrow>
          if \<not> str_in ''Type de'' parent_text
             \<and> \<not> str_in (''Ann'' @ [CHR 0xE9] @ ''e'') parent_text
             \<and> \<not> str_in ''Marque'' parent_text
          then (case eq_text eq of
                  Inl e \<Rightarrow> Inl e
                | Inr t \<Rightarrow> collect_equipment eqs (equipment_list @ [strip t]))
          else collect_equipment eqs equipment_list)"

definition read_equipment :: "exn + equipment_element list \<Rightarrow> detail_fields \<Rightarrow> detail_fields" where
  "read_equipment spans f =
     (case spans of
        Inl e \<Rightarrow> f
      | Inr equipment_elements \<Rightarrow>
          (case collect_equipment equipment_elements [] of
             Inl e \<Rightarrow> f
           | Inr equipment_list \<Rightarrow>
               if equipment_list \<noteq> [] then f\<lparr>equipment_text := str_join '', '' equipment_list\<rparr>
               else f))"

text \<open>
  The block that fills the twelve fields, all "N/A" at first. An exception of the query
  for the labelled attributes ends the block with the fields as they are.
\<close>

definition extract_fields :: "detail_page \<Rightarrow> detail_fields" where
  "extract_fields p =
     (let f = read_location (location_span p) unknown_fields
      in case detail_divs p of
           Inl e \<Rightarrow> f
         | Inr detail_elements \<Rightarrow>
             read_equipment (equipment_spans p)
               (read_category (category_span p) (scan_details detail_elements f)))"

definition fields_row :: "detail_fields \<Rightarrow> string list" where
  "fields_row f =
     [car_type f, location f, mileage f, brand f, model f, doors f, origin f, first_hand f,
      fiscal_power f, condition f, equipment_text f, seller_city f]"

text \<open>
  \<^verbatim>\<open>avito_main.py\<close>, \<^verbatim>\<open>scrape_details(url, driver, listing_id, folder_name)\<close>. \<open>browser url\<close>
  is the page the driver shows for \<open>url\<close>; \<^verbatim>\<open>listing_id\<close> is only logged.
  \<^verbatim>\<open>driver.get(url)\<close> and the two \<^verbatim>\<open>os.makedirs\<close> stand before the \<^verbatim>\<open>try\<close>, so their
  exceptions leave the function; the \<^verbatim>\<open>try\<close> begins at the scroll.
\<close>

definition scrape_details :: "world \<Rightarrow> (string \<Rightarrow> detail_page) \<Rightarrow> string \<Rightarrow> string \<Rightarrow> files \<Rightarrow> files \<times> (exn + string list)" where
  "scrape_details w browser url folder_name fs =
     (let p = browser url
      in case detail_get_raises p of
           Some e \<Rightarrow> (fs, Inl e)
         | None \<Rightarrow>
             let images_base_folder = path_join (path_join (path_join ''..'' ''data'') ''avito'') ''images''
             in if makedirs_raises w images_base_folder then (fs, Inl OSError)
                else
                  let listing_folder = path_join images_base_folder folder_name
                  in if makedirs_raises w listing_folder then (fs, Inl OSError)
                     else
                       (case detail_scroll_raises p of
                          Some e \<Rightarrow> (fs, Inr (replicate 12 ''N/A'' @ [folder_name]))
                        | None \<Rightarrow>
                            (case harvest_images w p listing_folder folder_name fs of
                               (fs', images_paths) \<Rightarrow>
                                 (fs', Inr (fields_row (extract_fields p) @ [folder_name])))))"

text \<open>\<^verbatim>\<open>row[k]\<close> on a list: \<^verbatim>\<open>IndexError\<close> out of range.\<close>

definition item :: "'a list \<Rightarrow> nat \<Rightarrow> exn + 'a" where
  "item row k = (if k < length row then Inr (row ! k) else Inl IndexError)"

definition new_headers :: "string list" where
  "new_headers =
     [''ID'', ''Titre'', ''Prix'', ''Date de publication'', ''Ann'' @ [CHR 0xE9] @ ''e'',
      ''Type de carburant'', ''Transmission'', ''Cr'' @ [CHR 0xE9] @ ''ateur'',
      ''Type de v'' @ [CHR 0xE9] @ ''hicule'', ''Secteur'', ''Kilom'' @ [CHR 0xE9] @ ''trage'',
      ''Marque'', ''Mod'' @ [CHR 0xE8] @ ''le'', ''Nombre de portes'', ''Origine'',
      ''Premi'' @ [CHR 0xE8] @ ''re main'', ''Puissance fiscale'', [CHR 0xC9] @ ''tat'',
      [CHR 0xC9] @ ''quipements'', ''Ville du vendeur'', ''Dossier d'' @ [CHR 0x27] @ ''images'']"

text \<open>
  \<^verbatim>\<open>avito_main.py\<close>, the loop of \<^verbatim>\<open>process_detailed_data\<close> over the rows read from the
  CSV file of the discovery (all columns text). The call of \<^verbatim>\<open>scrape_details\<close> is not
  inside a \<^verbatim>\<open>try\<close>: an exception that leaves it ends the loop, and the function, before
  the file is written.
\<close>

fun process_rows :: "world \<Rightarrow> (string \<Rightarrow> detail_page) \<Rightarrow> string list list \<Rightarrow> files \<Rightarrow> string list list \<Rightarrow> files \<times> (exn + string list list)" where
  "process_rows w browser [] fs detailed_data = (fs, Inr detailed_data)"
| "process_rows w browser (row # rows) fs detailed_data =
     (case item row 8 of
        Inl e \<Rightarrow> (fs, Inl e)
      | Inr url \<Rightarrow>
          (case item row 9 of
             Inl e \<Rightarrow> (fs, Inl e)
           | Inr folder_name \<Rightarrow>
               (case scrape_details w browser url folder_name fs of
                  (fs', Inl e) \<Rightarrow> (fs', Inl e)
                | (fs', Inr details) \<Rightarrow>
                    process_rows w browser rows fs' (detailed_data @ [take 8 row @ details]))))"

text \<open>
  \<^verbatim>\<open>process_detailed_data\<close>: \<open>Inr\<close> is the table handed to the CSV writer, header row
  first.
\<close>

definition process_detailed_data :: "world \<Rightarrow> (string \<Rightarrow> detail_page) \<Rightarrow> string list list \<Rightarrow> files \<Rightarrow> files \<times> (exn + string list list)" where
  "process_detailed_data w browser basic_data fs = process_rows w browser basic_data fs [new_headers]"

section \<open>The complete scraper (\<^verbatim>\<open>avito_scraper.py\<close>)\<close>

text \<open>
  \<^verbatim>\<open>avito_scraper.py\<close>, \<^verbatim>\<open>scrape_details\<close>: the text of \<^verbatim>\<open>avito_main.py\<close> but for the
  value returned, which ends with the image paths joined by \<^verbatim>\<open>", "\<close> (empty in the
  \<^verbatim>\<open>except\<close> branch).
\<close>

definition scrape_details_complete :: "world \<Rightarrow> (string \<Rightarrow> detail_page) \<Rightarrow> string \<Rightarrow> string \<Rightarrow> files \<Rightarrow> files \<times> (exn + string list)" where
  "scrape_details_complete w browser url folder_name fs =
     (let p = browser url
      in case detail_get_raises p of
           Some e \<Rightarrow> (fs, Inl e)
         | None \<Rightarrow>
             let images_base_folder = path_join (path_join (path_join ''..'' ''data'') ''avito'') ''images''
             in if makedirs_raises w images_base_folder then (fs, Inl OSError)
                else
                  let listing_folder = path_join images_base_folder folder_name
                  in if makedirs_raises w listing_folder then (fs, Inl OSError)
                     else
                       (case detail_scroll_raises p of
                          Some e \<Rightarrow> (fs, Inr (replicate 12 ''N/A'' @ [folder_name, '''']))
                        | None \<Rightarrow>
                            (case harvest_images w p listing_folder folder_name fs of
                               (fs', images_paths) \<Rightarrow>
                                 (fs', Inr (fields_row (extract_fields p)
                                            @ [folder_name, str_join '', '' images_paths])))))"

definition complete_headers :: "string list" where
  "complete_headers =
     [''ID'', ''Titre'', ''Prix'', ''Date de publication'', ''Ann'' @ [CHR 0xE9] @ ''e'',
      ''Type de carburant'', ''Transmission'', ''Cr'' @ [CHR 0xE9] @ ''ateur'',
      ''Type de v'' @ [CHR 0xE9] @ ''hicule'', ''Secteur'', ''Kilom'' @ [CHR 0xE9] @ ''trage'',
      ''Marque'', ''Mod'' @ [CHR 0xE8] @ ''le'', ''Nombre de portes'', ''Origine'',
      ''Premi'' @ [CHR 0xE8] @ ''re main'', ''Puissance fiscale'', [CHR 0xC9] @ ''tat'',
      [CHR 0xC9] @ ''quipements'', ''Ville du vendeur'', ''Dossier d'' @ [CHR 0x27] @ ''images'']"

text \<open>
  The loop of \<^verbatim>\<open>main\<close> over the rows of the discovery, which are in memory: the identity
  is an integer, the other columns are text. A URL that is not text is refused by the
  driver, a folder name that is not text by \<^verbatim>\<open>os.path.join\<close>.
\<close>

fun complete_rows :: "world \<Rightarrow> (string \<Rightarrow> detail_page) \<Rightarrow> cell list list \<Rightarrow> files \<Rightarrow> cell list list \<Rightarrow> files \<times> (exn + cell list list)" where
  "complete_rows w browser [] fs complete_data = (fs, Inr complete_data)"
| "complete_rows w browser (row # rows) fs complete_data =
     (case item row 0 of
        Inl e \<Rightarrow> (fs, Inl e)
      | Inr listing_id \<Rightarrow>
     (case item row 8 of
        Inl e \<Rightarrow> (fs, Inl e)
      | Inr (IntCell n) \<Rightarrow> (fs, Inl WebDriverException)
      | Inr (StrCell url) \<Rightarrow>
          (case item row 9 of
             Inl e \<Rightarrow> (fs, Inl e)
           | Inr (IntCell n) \<Rightarrow> (fs, Inl TypeError)
           | Inr (StrCell folder_name) \<Rightarrow>
               (case scrape_details_complete w browser url folder_name fs of
                  (fs', Inl e) \<Rightarrow> (fs', Inl e)
                | (fs', Inr details) \<Rightarrow>
                    complete_rows w browser rows fs'
                      (complete_data @ [take 8 row @ map StrCell details])))))"

text \<open>
  What \<^verbatim>\<open>main\<close> hands to \<^verbatim>\<open>save_to_csv\<close>: the header row \<^verbatim>\<open>complete_headers\<close> and the
  rows of \<^verbatim>\<open>complete_data\<close>.
\<close>

definition main_table :: "world \<Rightarrow> (string \<Rightarrow> detail_page) \<Rightarrow> cell list list \<Rightarrow> files \<Rightarrow> exn + string list \<times> cell list list" where
  "main_table w browser basic_data fs =
     (case complete_rows w browser basic_data fs [] of
        (fs', Inl e) \<Rightarrow> Inl e
      | (fs', Inr complete_data) \<Rightarrow> Inr (complete_headers, complete_data))"

section \<open>Notions used to state the properties\<close>

text \<open>
  The asset reference of the image at index \<open>i\<close> of the discovered list: present when the
  element has a non-empty \<^verbatim>\<open>src\<close> and its download returns a file name. The name given
  to the download is \<^verbatim>\<open>image_\<close> followed by \<open>i + 1\<close>.
\<close>

definition asset_reference :: "world \<Rightarrow> string \<Rightarrow> string \<Rightarrow> nat \<times> image_element \<Rightarrow> string option" where
  "asset_reference w listing_folder folder_name x =
     (case x of
        (i, Inl e) \<Rightarrow> None
      | (i, Inr None) \<Rightarrow> None
      | (i, Inr (Some img_src)) \<Rightarrow>
          if img_src = [] then None
          else
            (case snd (download_image w img_src listing_folder (''image_'' @ str_int (int i + 1))
                        (\<lambda>path. None)) of
               None \<Rightarrow> None
             | Some image_filename \<Rightarrow>
                 if image_filename = [] then None else Some (path_join folder_name image_filename)))"

text \<open>The number of chunks written to a path before the first write that fails.\<close>

definition written_chunks :: "world \<Rightarrow> string \<Rightarrow> nat \<Rightarrow> nat \<Rightarrow> nat" where
  "written_chunks w path k n = length (takeWhile (\<lambda>j. \<not> write_raises w path j) [k..<k + n])"

text \<open>
  A label that reaches the "Secteur" branch of the chain: it contains "Secteur" and none
  of the words tested before it. An attribute sets the location when its two spans and
  their texts are read without exception and its stripped label is such a label.
\<close>

definition secteur_label :: "string \<Rightarrow> bool" where
  "secteur_label label =
     (str_in ''Secteur'' label
      \<and> \<not> str_in (''Ann'' @ [CHR 0xE9] @ ''e-Mod'' @ [CHR 0xE8] @ ''le'') label
      \<and> \<not> str_in (''Type de v'' @ [CHR 0xE9] @ ''hicule'') label
      \<and> \<not> str_in (''Cat'' @ [CHR 0xE9] @ ''gorie'') label
      \<and> \<not> str_in (''Kilom'' @ [CHR 0xE9] @ ''trage'') label
      \<and> \<not> str_in ''Marque'' label
      \<and> \<not> str_in (''Mod'' @ [CHR 0xE8] @ ''le'') label
      \<and> \<not> str_in ''Nombre de portes'' label
      \<and> \<not> str_in ''Origine'' label
      \<and> \<not> str_in (''Premi'' @ [CHR 0xE8] @ ''re main'') label
      \<and> \<not> str_in ''Puissance fiscale'' label
      \<and> \<not> str_in ([CHR 0xC9] @ ''tat'') label)"

definition sets_location :: "detail_element \<Rightarrow> bool" where
  "sets_location element =
     (case (value_span element, label_span element) of
        (Inr (Inr vt), Inr (Inr lt)) \<Rightarrow> secteur_label (strip lt)
      | _ \<Rightarrow> False)"

section \<open>Concrete documents and worlds\<close>

text \<open>The inputs at which the theorems below are evaluated.\<close>

definition card_ok :: listing where
  "card_ok =
     \<lparr>title_lookup = Inr [Inr ''  Dacia Logan ''],
      price_lookup = Inr [Inr ''85 000 DH''],
      pub_date_lookup = Inr [Inr ''il y a 5 minutes''],
      year_lookup = Inr [Inr ''2019''],
      fuel_lookup = Inr [Inr ''Diesel''],
      transmission_lookup = Inr [Inr ''Manuelle''],
      href = Inr (Some ''https://www.avito.ma/a''),
      creator_lookup = Inr [],
      clock = datetime_of 2026 11 3 12 0 7 123456\<rparr>"

definition card_stale :: listing where
  "card_stale = card_ok\<lparr>price_lookup := Inl StaleElementReferenceException\<rparr>"


definition results_page :: page where
  "results_page =
     \<lparr>page_get_raises = None, page_wait_raises = None, page_scroll_raises = None,
      page_container_raises = None, page_listings = Inr [card_ok, card_stale, card_ok]\<rparr>"

definition expected_rows :: "cell list list" where
  "expected_rows =
     [[IntCell 1, StrCell ''Dacia Logan'', StrCell ''85 000 DH'', StrCell ''2026-11-03 11:55:07'',
       StrCell ''2019'', StrCell ''Diesel'', StrCell ''Manuelle'', StrCell ''Particulier'',
       StrCell ''https://www.avito.ma/a'', StrCell ''1_Dacia_Logan''],
      [IntCell 2, StrCell ''Dacia Logan'', StrCell ''85 000 DH'', StrCell ''2026-11-03 11:55:07'',
       StrCell ''2019'', StrCell ''Diesel'', StrCell ''Manuelle'', StrCell ''Particulier'',
       StrCell ''https://www.avito.ma/a'', StrCell ''2_Dacia_Logan'']]"

definition jpeg_ok :: response where
  "jpeg_ok = \<lparr>status_raises = False, content_type = ''image/jpeg'',
              body_chunks = [''abc'', ''def''], body_raises = False\<rparr>"

definition jpeg_broken :: response where
  "jpeg_broken = \<lparr>status_raises = False, content_type = ''image/jpeg'',
                  body_chunks = [''abc''], body_raises = True\<rparr>"

text \<open>
  A world where the URL \<^verbatim>\<open>u2\<close> answers with a stream that breaks after its first chunk,
  every other URL answers well, and the disk never fails.
\<close>

definition world_u2_breaks :: world where
  "world_u2_breaks =
     \<lparr>http_get = (\<lambda>url. if url = ''u2'' then Inr jpeg_broken else Inr jpeg_ok),
      makedirs_raises = (\<lambda>path. False),
      open_raises = (\<lambda>path. False),
      write_raises = (\<lambda>path k. False)\<rparr>"

definition no_files :: files where
  "no_files = (\<lambda>path. None)"

definition detail_ok :: detail_page where
  "detail_ok =
     \<lparr>detail_get_raises = None, detail_scroll_raises = None,
      picture_imgs = Inr [Inr (Some ''u1''), Inr (Some ''u2''), Inr (Some ''u3'')],
      gallery_imgs = Inr [],
      location_span = Inr (Inr ''Casablanca, Maroc''),
      detail_divs = Inr [\<lparr>value_span = Inr (Inr ''Dacia''), label_span = Inr (Inr ''Marque'')\<rparr>,
                         \<lparr>value_span = Inr (Inr ''Maarif''), label_span = Inr (Inr ''Secteur'')\<rparr>],
      category_span = Inl NoSuchElementException,
      equipment_spans = Inr []\<rparr>"

definition detail_timeout :: detail_page where
  "detail_timeout = detail_ok\<lparr>detail_get_raises := Some TimeoutException\<rparr>"

definition detail_both_words :: detail_page where
  "detail_both_words =
     detail_ok\<lparr>detail_divs :=
       Inr [\<lparr>value_span = Inr (Inr ''Maarif''), label_span = Inr (Inr ''Origine - Secteur'')\<rparr>]\<rparr>"

definition browser_second_times_out :: "string \<Rightarrow> detail_page" where
  "browser_second_times_out url = (if url = ''https://www.avito.ma/b'' then detail_timeout else detail_ok)"

definition basic_csv_rows :: "string list list" where
  "basic_csv_rows =
     [[''1'', ''Dacia Logan'', ''85 000 DH'', ''2026-11-03 11:55:07'', ''2019'', ''Diesel'',
       ''Manuelle'', ''Particulier'', ''https://www.avito.ma/a'', ''1_Dacia_Logan''],
      [''2'', ''Renault Clio'', ''90 000 DH'', ''2026-11-03 11:00:00'', ''2020'', ''Essence'',
       ''Manuelle'', ''Particulier'', ''https://www.avito.ma/b'', ''2_Renault_Clio'']]"

definition basic_rows :: "cell list list" where
  "basic_rows =
     [[IntCell 1, StrCell ''Dacia Logan'', StrCell ''85 000 DH'', StrCell ''2026-11-03 11:55:07'',
       StrCell ''2019'', StrCell ''Diesel'', StrCell ''Manuelle'', StrCell ''Particulier'',
       StrCell ''https://www.avito.ma/a'', StrCell ''1_Dacia_Logan'']]"

section \<open>Facts about strings and numbers\<close>

lemma digit_val_digit_char: "d < 10 \<Longrightarrow> digit_val (digit_char d) = d"
  by (simp add: digit_val_def digit_char_def)

lemma is_digit_digit_char: "d < 10 \<Longrightarrow> is_digit (digit_char d)"
  by (simp add: is_digit_def digit_char_def)

lemma str_nat_all_digits: "list_all is_digit (str_nat n)"
proof (induction n rule: str_nat.induct)
  case (1 n)
  show ?case
  proof (cases "n < 10")
    case True
    then show ?thesis by (simp add: str_nat.simps [of n] is_digit_digit_char)
  next
    case False
    with 1 show ?thesis by (simp add: str_nat.simps [of n] is_digit_digit_char)
  qed
qed

lemma int_of_digits_snoc: "int_of_digits (s @ [c]) = 10 * int_of_digits s + int (digit_val c)"
  by (simp add: int_of_digits_def)

lemma int_of_digits_nonneg: "0 \<le> int_of_digits s"
  by (induction s rule: rev_induct) (simp_all add: int_of_digits_snoc, simp add: int_of_digits_def)

lemma int_of_digits_str_nat: "int_of_digits (str_nat n) = int n"
proof (induction n rule: str_nat.induct)
  case (1 n)
  show ?case
  proof (cases "n < 10")
    case True
    then show ?thesis
      by (simp add: str_nat.simps [of n] int_of_digits_def digit_val_digit_char)
  next
    case False
    then have "int_of_digits (str_nat n) = 10 * int (n div 10) + int (n mod 10)"
      using 1 by (simp add: str_nat.simps [of n] int_of_digits_snoc digit_val_digit_char)
    moreover have "int (10 * (n div 10) + n mod 10) = int n" by simp
    ultimately show ?thesis by (simp only: of_nat_add of_nat_mult of_nat_numeral)
  qed
qed

lemma str_nat_inj: "str_nat m = str_nat n \<Longrightarrow> m = n"
  by (metis int_of_digits_str_nat of_nat_eq_iff)

lemma is_digit_not_special:
  "is_digit c \<Longrightarrow> c \<noteq> CHR ''_'' \<and> c \<noteq> CHR ''-'' \<and> c \<noteq> CHR ''/''"
  by (auto simp: is_digit_def)

lemma str_nat_no_underscore: "list_all (\<lambda>c. c \<noteq> CHR ''_'') (str_nat n)"
  using str_nat_all_digits [of n] by (auto simp: list_all_iff dest: is_digit_not_special)

lemma str_nat_no_slash: "list_all (\<lambda>c. c \<noteq> CHR ''/'') (str_nat n)"
  using str_nat_all_digits [of n] by (auto simp: list_all_iff dest: is_digit_not_special)

lemma str_nat_nonempty: "str_nat n \<noteq> []"
  by (subst str_nat.simps) simp

lemma str_nat_hd_digit: "is_digit (hd (str_nat n))"
  using str_nat_all_digits [of n] str_nat_nonempty [of n]
  by (cases "str_nat n") auto

lemma str_int_no_underscore: "list_all (\<lambda>c. c \<noteq> CHR ''_'') (str_int i)"
  using str_nat_no_underscore by (simp add: str_int_def)

lemma str_int_inj: "str_int i = str_int j \<Longrightarrow> i = j"
proof -
  assume eq: "str_int i = str_int j"
  have neg: "str_nat m \<noteq> CHR ''-'' # s" for m s
    using str_nat_hd_digit [of m] is_digit_not_special by (metis list.sel(1))
  show "i = j"
  proof (cases "i < 0")
    case True
    show ?thesis
    proof (cases "j < 0")
      case True
      with \<open>i < 0\<close> eq have "nat (- i) = nat (- j)"
        by (auto simp: str_int_def dest: str_nat_inj)
      with True \<open>i < 0\<close> show ?thesis by simp
    next
      case False
      with True eq neg [of "nat j" "str_nat (nat (- i))"] show ?thesis
        by (auto simp: str_int_def)
    qed
  next
    case False
    show ?thesis
    proof (cases "j < 0")
      case True
      with False eq neg [of "nat i" "str_nat (nat (- j))"] show ?thesis
        by (auto simp: str_int_def)
    next
      case False
      with \<open>\<not> i < 0\<close> eq have "nat i = nat j"
        by (auto simp: str_int_def dest: str_nat_inj)
      with False \<open>\<not> i < 0\<close> show ?thesis by simp
    qed
  qed
qed

lemma takeWhile_prefix_sep:
  "list_all P xs \<Longrightarrow> \<not> P c \<Longrightarrow> takeWhile P (xs @ c # ys) = xs"
  by (induction xs) auto

lemma re_search_digits_None: "re_search_digits s = None \<longleftrightarrow> list_all (\<lambda>c. \<not> is_digit c) s"
  by (auto simp: re_search_digits_def Let_def list_all_iff)

section \<open>Folder identity\<close>

lemma create_folder_name_example:
  "create_folder_name ''Toyota Yaris 2020!!'' 7 = ''7_Toyota_Yaris_2020''"
  by code_simp

text \<open>
  Claim C6. The folder name is injective in the ordinal: two listings with different
  ordinals get different folder names, whatever their titles are (equal titles, or titles
  that agree after cleaning and truncation to 50 characters, included). The title part is
  cut to 50 characters before the ordinal and the underscore are put in front, and the
  ordinal's digits end at the first underscore of the name. The statement holds for all
  integers, so for the positive ordinals of a run.
\<close>

theorem create_folder_name_ordinal_injective:
  "i \<noteq> j \<Longrightarrow> create_folder_name title1 i \<noteq> create_folder_name title2 j"
proof
  assume ne: "i \<noteq> j" and eq: "create_folder_name title1 i = create_folder_name title2 j"
  define P where "P = (\<lambda>c. c \<noteq> CHR ''_'')"
  from eq have "takeWhile P (create_folder_name title1 i) = takeWhile P (create_folder_name title2 j)"
    by simp
  then have "str_int i = str_int j"
    using str_int_no_underscore [of i] str_int_no_underscore [of j]
    by (simp add: create_folder_name_def Let_def P_def takeWhile_prefix_sep)
  with ne show False by (auto dest: str_int_inj)
qed

theorem create_folder_name_ordinal_injective_witness:
  "(1::int) \<noteq> 2 \<and> create_folder_name ''Dacia Logan'' 1 \<noteq> create_folder_name ''Dacia Logan'' 2"
  using create_folder_name_ordinal_injective [of 1 2 "''Dacia Logan''" "''Dacia Logan''"] by simp

section \<open>Relative dates\<close>






lemma startswith_subset: "startswith xs q \<Longrightarrow> set q \<subseteq> set xs"
  by (induction xs q rule: startswith.induct) auto

lemma str_in_subset: "str_in p s \<Longrightarrow> set p \<subseteq> set s"
proof (induction s)
  case Nil
  then show ?case by simp
next
  case (Cons c cs)
  from Cons.prems have "startswith (c # cs) p \<or> str_in p cs" by simp
  then show ?case
  proof
    assume "startswith (c # cs) p"
    then show ?thesis by (rule startswith_subset)
  next
    assume "str_in p cs"
    then have "set p \<subseteq> set cs" by (rule Cons.IH)
    then show ?thesis by auto
  qed
qed




lemma re_search_digits_all:
  assumes "ds \<noteq> []" and "list_all is_digit ds"
  shows "re_search_digits ds = Some ds"
proof -
  from assms have d: "dropWhile (\<lambda>c. \<not> is_digit c) ds = ds"
    by (cases ds) simp_all
  from assms(2) have "takeWhile is_digit ds = ds"
    by (simp add: list_all_iff)
  with d assms(1) show ?thesis by (simp add: re_search_digits_def)
qed

lemma is_digit_zero: "is_digit CHR ''0''" "is_digit CHR ''5''" "\<not> is_digit CHR '' ''"
  by (simp_all add: is_digit_def)





text \<open>
  Claim C5, as amended. A "quelques instants" phrase gives the current time, whatever
  else the phrase holds (no number is looked for). Any other phrase gives "Date
  inconnue", and no exception, when it has no digit, and when its first run of digits has
  at most 4300 digits and the phrase has none of the unit words "minute", "heure", "jour",
  "mois", "an".
\<close>

theorem convert_relative_date_unknown:
  "(str_in ''quelques instants'' (lower phrase) \<longrightarrow>
      convert_relative_date now phrase = Inr (strftime_YmdHMS now))
   \<and> (\<not> str_in ''quelques instants'' (lower phrase) \<and> list_all (\<lambda>c. \<not> is_digit c) phrase \<longrightarrow>
      convert_relative_date now phrase = Inr ''Date inconnue'')
   \<and> (\<not> str_in ''quelques instants'' (lower phrase)
       \<and> re_search_digits phrase = Some g \<and> length g \<le> 4300
       \<and> \<not> str_in ''minute'' phrase \<and> \<not> str_in ''heure'' phrase \<and> \<not> str_in ''jour'' phrase
       \<and> \<not> str_in ''mois'' phrase \<and> \<not> str_in ''an'' phrase \<longrightarrow>
      convert_relative_date now phrase = Inr ''Date inconnue'')"
proof (intro conjI impI)
  assume "str_in ''quelques instants'' (lower phrase)"
  then show "convert_relative_date now phrase = Inr (strftime_YmdHMS now)"
    by (simp add: convert_relative_date_def)
next
  assume "\<not> str_in ''quelques instants'' (lower phrase) \<and> list_all (\<lambda>c. \<not> is_digit c) phrase"
  then show "convert_relative_date now phrase = Inr ''Date inconnue''"
    by (simp add: convert_relative_date_def re_search_digits_None [symmetric])
next
  assume "\<not> str_in ''quelques instants'' (lower phrase)
       \<and> re_search_digits phrase = Some g \<and> length g \<le> 4300
       \<and> \<not> str_in ''minute'' phrase \<and> \<not> str_in ''heure'' phrase \<and> \<not> str_in ''jour'' phrase
       \<and> \<not> str_in ''mois'' phrase \<and> \<not> str_in ''an'' phrase"
  then show "convert_relative_date now phrase = Inr ''Date inconnue''"
    by (simp add: convert_relative_date_def bind_result_def py_int_def int_max_str_digits_def)
qed

theorem convert_relative_date_unknown_witness:
  "convert_relative_date (datetime_of 2026 11 3 12 0 7 123456) ''Il y a Quelques Instants''
     = Inr ''2026-11-03 12:00:07''
   \<and> convert_relative_date (datetime_of 2026 11 3 12 0 7 123456) ''N/A'' = Inr ''Date inconnue''
   \<and> convert_relative_date (datetime_of 2026 11 3 12 0 7 123456) ''5 MINUTES'' = Inr ''Date inconnue''"
proof -
  let ?now = "datetime_of 2026 11 3 12 0 7 123456"
  have a1: "str_in ''quelques instants'' (lower ''Il y a Quelques Instants'')" by code_simp
  have v1: "strftime_YmdHMS ?now = ''2026-11-03 12:00:07''" by code_simp
  have a2: "\<not> str_in ''quelques instants'' (lower ''N/A'') \<and> list_all (\<lambda>c. \<not> is_digit c) ''N/A''"
    by code_simp
  have a3: "\<not> str_in ''quelques instants'' (lower ''5 MINUTES'')
       \<and> re_search_digits ''5 MINUTES'' = Some ''5'' \<and> length ''5'' \<le> 4300
       \<and> \<not> str_in ''minute'' ''5 MINUTES'' \<and> \<not> str_in ''heure'' ''5 MINUTES''
       \<and> \<not> str_in ''jour'' ''5 MINUTES'' \<and> \<not> str_in ''mois'' ''5 MINUTES''
       \<and> \<not> str_in ''an'' ''5 MINUTES''"
    by code_simp
  note t1 = convert_relative_date_unknown [of "''Il y a Quelques Instants''" ?now]
  note t2 = convert_relative_date_unknown [of "''N/A''" ?now]
  note t3 = convert_relative_date_unknown [of "''5 MINUTES''" ?now "''5''"]
  have r1: "convert_relative_date ?now ''Il y a Quelques Instants'' = Inr ''2026-11-03 12:00:07''"
    using t1 [THEN conjunct1, THEN mp, OF a1] unfolding v1 .
  have r2: "convert_relative_date ?now ''N/A'' = Inr ''Date inconnue''"
    using t2 [THEN conjunct2, THEN conjunct1, THEN mp, OF a2] .
  have r3: "convert_relative_date ?now ''5 MINUTES'' = Inr ''Date inconnue''"
    using t3 [THEN conjunct2, THEN conjunct2, THEN mp, OF a3] .
  show ?thesis by (intro conjI r1 r2 r3)
qed

text \<open>
  The claim as first stated, that a phrase with a digit and no unit word never raises,
  fails: \<^verbatim>\<open>int\<close> is applied to the run of digits before the unit words are looked for,
  and a run of 4301 zeros makes it raise \<^verbatim>\<open>ValueError\<close>.
\<close>

theorem convert_relative_date_unknown_counterexample:
  "\<not> str_in ''quelques instants'' (lower (replicate 4301 CHR ''0''))
   \<and> list_ex is_digit (replicate 4301 CHR ''0'')
   \<and> \<not> str_in ''minute'' (replicate 4301 CHR ''0'')
   \<and> \<not> str_in ''heure'' (replicate 4301 CHR ''0'')
   \<and> \<not> str_in ''jour'' (replicate 4301 CHR ''0'')
   \<and> \<not> str_in ''mois'' (replicate 4301 CHR ''0'')
   \<and> \<not> str_in ''an'' (replicate 4301 CHR ''0'')
   \<and> convert_relative_date (datetime_of 2026 11 3 12 0 7 123456) (replicate 4301 CHR ''0'')
       = Inl ValueError"
proof -
  let ?z = "replicate 4301 CHR ''0''"
  have lz: "lower ?z = ?z"
    by (simp add: lower_def lower_char_def)
  have no: "\<not> str_in p ?z" if "c \<in> set p" and "c \<noteq> CHR ''0''" for p c
    using that str_in_subset [of p ?z] by auto
  have z1: "\<not> str_in ''quelques instants'' (lower ?z)"
    unfolding lz by (rule no [of "CHR ''q''"]) simp_all
  have z2: "list_ex is_digit ?z"
    by (simp add: list_ex_iff is_digit_zero)
  have k1: "\<not> str_in ''minute'' ?z" by (rule no [of "CHR ''m''"]) simp_all
  have k2: "\<not> str_in ''heure'' ?z" by (rule no [of "CHR ''h''"]) simp_all
  have k3: "\<not> str_in ''jour'' ?z" by (rule no [of "CHR ''j''"]) simp_all
  have k4: "\<not> str_in ''mois'' ?z" by (rule no [of "CHR ''m''"]) simp_all
  have k5: "\<not> str_in ''an'' ?z" by (rule no [of "CHR ''a''"]) simp_all
  have g: "re_search_digits ?z = Some ?z"
    by (rule re_search_digits_all) (simp_all add: list_all_iff is_digit_zero)
  have r: "convert_relative_date (datetime_of 2026 11 3 12 0 7 123456) ?z = Inl ValueError"
    using z1 g by (simp add: convert_relative_date_def bind_result_def py_int_def
        int_max_str_digits_def)
  show ?thesis by (intro conjI z1 z2 k1 k2 k3 k4 k5 r)
qed

section \<open>The ordinal counter of a discovery run\<close>

lemma bind_result_Inr_iff:
  "bind_result r f = Inr y \<longleftrightarrow> (\<exists>v. r = Inr v \<and> f v = Inr y)"
  by (cases r) (simp_all add: bind_result_def)

lemma bind_result_Inl_iff:
  "bind_result r f = Inl e \<longleftrightarrow> r = Inl e \<or> (\<exists>v. r = Inr v \<and> f v = Inl e)"
  by (cases r) (simp_all add: bind_result_def)

lemma scrape_listing_row:
  assumes "scrape_listing l c = Inr row"
  shows "take 1 row = [IntCell c]" and "length row = 10"
  using assms by (auto simp: scrape_listing_def bind_result_Inr_iff Let_def)

lemma scrape_listing_Inl_any_counter:
  assumes "scrape_listing l c = Inl e"
  shows "scrape_listing l c' = Inl e"
  using assms
  by (auto simp: scrape_listing_def bind_result_def Let_def split: sum.splits)

lemma scrape_listing_isl_any_counter:
  "isl (scrape_listing l c) = isl (scrape_listing l c')"
  by (metis isl_def scrape_listing_Inl_any_counter)

lemma scrape_listings_append:
  "scrape_listings (xs @ ys) st = scrape_listings ys (scrape_listings xs st)"
proof (induction xs arbitrary: st)
  case Nil
  show ?case by simp
next
  case (Cons x xs)
  obtain data c where st: "st = (data, c)" by (cases st)
  show ?case unfolding st using Cons by (cases "scrape_listing x c") simp_all
qed

lemma numbered_step:
  assumes "numbered (data, c)" and "scrape_listing l c = Inr row"
  shows "numbered (data @ [row], c + 1)"
proof -
  from assms(1) have c: "c = 1 + int (length data)"
    and ids: "map (take 1) data = map (\<lambda>i. [IntCell i]) [1..int (length data)]"
    by (simp_all add: numbered_def)
  have "[1..int (length data) + 1] = [1..int (length data)] @ [int (length data) + 1]"
    by (simp add: upto_rec2)
  with ids scrape_listing_row(1) [OF assms(2)] c show ?thesis
    by (simp add: numbered_def add.commute)
qed

lemma numbered_scrape_listings:
  "numbered st \<Longrightarrow> numbered (scrape_listings ls st)"
proof (induction ls arbitrary: st)
  case Nil
  then show ?case by simp
next
  case (Cons l ls)
  obtain data c where st: "st = (data, c)" by (cases st)
  show ?case
  proof (cases "scrape_listing l c")
    case (Inl e)
    with Cons st show ?thesis by simp
  next
    case (Inr row)
    with Cons.prems st have "numbered (data @ [row], c + 1)"
      by (simp add: numbered_step)
    with Cons.IH Inr st show ?thesis by simp
  qed
qed

lemma numbered_scrape_page:
  "numbered st \<Longrightarrow> scrape_page p st = Inr st' \<Longrightarrow> numbered st'"
  by (auto simp: scrape_page_def numbered_scrape_listings split: option.splits sum.splits if_splits)

lemma numbered_scrape_pages:
  "numbered st \<Longrightarrow> scrape_pages site ns st = Inr st' \<Longrightarrow> numbered st'"
proof (induction ns arbitrary: st)
  case Nil
  then show ?case by simp
next
  case (Cons n ns)
  then show ?case
    by (cases "scrape_page (site n) st") (auto dest: numbered_scrape_page)
qed

lemma scrape_listings_counter:
  "snd (scrape_listings ls (data, c))
     = c + int (length (filter (\<lambda>l. \<not> isl (scrape_listing l 1)) ls))"
proof (induction ls arbitrary: data c)
  case Nil
  show ?case by simp
next
  case (Cons l ls)
  show ?case
  proof (cases "scrape_listing l c")
    case (Inl e)
    then have "isl (scrape_listing l 1)"
      using scrape_listing_isl_any_counter [of l 1 c] by simp
    with Inl Cons show ?thesis by simp
  next
    case (Inr row)
    then have "\<not> isl (scrape_listing l 1)"
      using scrape_listing_isl_any_counter [of l 1 c] by simp
    with Inr Cons show ?thesis by simp
  qed
qed

lemma scrape_listings_drop:
  assumes "scrape_listing l c = Inl e"
  shows "scrape_listings (ls1 @ l # ls2) st = scrape_listings (ls1 @ ls2) st"
proof -
  obtain data' c' where mid: "scrape_listings ls1 st = (data', c')"
    by (cases "scrape_listings ls1 st")
  from assms have "scrape_listing l c' = Inl e"
    by (rule scrape_listing_Inl_any_counter)
  with mid show ?thesis by (simp add: scrape_listings_append)
qed

text \<open>
  Claim C8. In one discovery run the counter starts at 1 and the rows returned carry the
  identities 1, 2, ..., n in order (so they increase strictly and none is used twice). The
  counter moves only when a row has been built: after the cards of a page it has grown by
  the number of cards whose extraction succeeded. A card whose extraction raises leaves
  counter and rows as they were: the page gives the same result as if the card were not
  there, so the cards after it are still read.
\<close>

theorem ordinal_counter_monotone:
  "(scrape_avito site start_page end_page = Inr data \<longrightarrow>
      map (take 1) data = map (\<lambda>i. [IntCell i]) [1..int (length data)])
   \<and> snd (scrape_listings ls (rows, c))
       = c + int (length (filter (\<lambda>l. \<not> isl (scrape_listing l 1)) ls))
   \<and> (scrape_listing l c = Inl e \<longrightarrow>
        scrape_listings (ls1 @ l # ls2) (rows, c) = scrape_listings (ls1 @ ls2) (rows, c))"
proof (intro conjI impI)
  assume run: "scrape_avito site start_page end_page = Inr data"
  have init: "numbered ([], 1)" by (simp add: numbered_def)
  from run obtain c' where "scrape_pages site [start_page..end_page] ([], 1) = Inr (data, c')"
    by (auto simp: scrape_avito_def split: sum.splits prod.splits)
  with init have "numbered (data, c')" by (rule numbered_scrape_pages)
  then show "map (take 1) data = map (\<lambda>i. [IntCell i]) [1..int (length data)]"
    by (simp add: numbered_def)
next
  show "snd (scrape_listings ls (rows, c))
       = c + int (length (filter (\<lambda>l. \<not> isl (scrape_listing l 1)) ls))"
    by (rule scrape_listings_counter)
next
  assume "scrape_listing l c = Inl e"
  then show "scrape_listings (ls1 @ l # ls2) (rows, c) = scrape_listings (ls1 @ ls2) (rows, c)"
    by (rule scrape_listings_drop)
qed

theorem ordinal_counter_monotone_witness:
  "scrape_avito (\<lambda>n. results_page) 1 1 = Inr expected_rows
   \<and> map (take 1) expected_rows = [[IntCell 1], [IntCell 2]]
   \<and> scrape_listing card_stale 1 = Inl StaleElementReferenceException
   \<and> scrape_listings [card_ok, card_stale, card_ok] ([], 1) = scrape_listings [card_ok, card_ok] ([], 1)
   \<and> snd (scrape_listings [card_ok, card_stale, card_ok] ([], 1)) = 3"
proof -
  have run: "scrape_avito (\<lambda>n. results_page) 1 1 = Inr expected_rows"
    by code_simp
  have bad: "scrape_listing card_stale 1 = Inl StaleElementReferenceException"
    by code_simp
  have cnt: "1 + int (length (filter (\<lambda>l. \<not> isl (scrape_listing l 1)) [card_ok, card_stale, card_ok])) = 3"
    by code_simp
  have u: "map (\<lambda>i. [IntCell i]) [1..int (length expected_rows)] = [[IntCell 1], [IntCell 2]]"
    by code_simp
  note t = ordinal_counter_monotone [of "\<lambda>n. results_page" 1 1 expected_rows
      "[card_ok, card_stale, card_ok]" "[]" 1 card_stale StaleElementReferenceException
      "[card_ok]" "[card_ok]"]
  have ids: "map (take 1) expected_rows = [[IntCell 1], [IntCell 2]]"
    using t [THEN conjunct1, THEN mp, OF run] unfolding u .
  have drop: "scrape_listings [card_ok, card_stale, card_ok] ([], 1)
      = scrape_listings [card_ok, card_ok] ([], 1)"
    using t [THEN conjunct2, THEN conjunct2, THEN mp, OF bad] by simp
  have c: "snd (scrape_listings [card_ok, card_stale, card_ok] ([], 1)) = 3"
    using t [THEN conjunct2, THEN conjunct1] unfolding cnt .
  show ?thesis by (intro conjI run ids bad drop c)
qed

section \<open>Image download and harvest\<close>

lemma written_chunks_0: "written_chunks w p k 0 = 0"
  by (simp add: written_chunks_def)

lemma written_chunks_Suc:
  "written_chunks w p k (Suc n)
     = (if write_raises w p k then 0 else Suc (written_chunks w p (Suc k) n))"
proof -
  have "[k..<k + Suc n] = k # [Suc k..<Suc k + n]"
    by (simp add: upt_rec)
  then show ?thesis
    unfolding written_chunks_def by simp
qed

lemma written_chunks_le: "written_chunks w p k n \<le> n"
  unfolding written_chunks_def
  by (metis length_takeWhile_le length_upt add_diff_cancel_left')

lemma write_chunks_open:
  "fs p = Some old \<Longrightarrow>
   write_chunks w p k chunks fs =
     (fs(p \<mapsto> old @ concat (take (written_chunks w p k (length chunks)) chunks)),
      if written_chunks w p k (length chunks) < length chunks then Some OSError else None)"
proof (induction chunks arbitrary: k fs old)
  case Nil
  then show ?case by (auto simp: written_chunks_0)
next
  case (Cons c cs)
  show ?case
  proof (cases "write_raises w p k")
    case True
    with Cons.prems show ?thesis
      by (auto simp: written_chunks_Suc)
  next
    case False
    let ?m = "written_chunks w p (Suc k) (length cs)"
    have "write_chunks w p k (c # cs) fs = write_chunks w p (Suc k) cs (fs(p \<mapsto> old @ c))"
      using False Cons.prems by simp
    also have "\<dots> = ((fs(p \<mapsto> old @ c))(p \<mapsto> (old @ c) @ concat (take ?m cs)),
                     if ?m < length cs then Some OSError else None)"
      by (rule Cons.IH) simp
    finally have step: "write_chunks w p k (c # cs) fs
        = (fs(p \<mapsto> old @ c @ concat (take ?m cs)), if ?m < length cs then Some OSError else None)"
      by simp
    have wc: "written_chunks w p k (length (c # cs)) = Suc ?m"
      using False by (simp add: written_chunks_Suc)
    show ?thesis
      unfolding wc step by (simp add: fun_eq_iff)
  qed
qed

lemma download_image_snd_indep:
  "snd (download_image w u fp n fs) = snd (download_image w u fp n fs')"
  by (simp add: download_image_def download_image_try_def Let_def write_chunks_open
      split: sum.splits prod.splits option.splits)

lemma basename_path_join:
  assumes "list_all (\<lambda>c. c \<noteq> CHR ''/'') b"
  shows "basename (path_join a b) = b"
proof -
  have tw: "takeWhile (\<lambda>c. c \<noteq> CHR ''/'') (rev b @ CHR ''/'' # xs) = rev b" for xs
    using assms by (intro takeWhile_prefix_sep) (simp_all add: list_all_iff)
  have tw0: "takeWhile (\<lambda>c. c \<noteq> CHR ''/'') (rev b) = rev b"
    using assms by (simp add: list_all_iff)
  have nb: "\<not> startswith b ''/''"
    using assms by (cases b) auto
  show ?thesis
  proof (cases "a = []")
    case True
    with nb show ?thesis by (simp add: basename_def path_join_def tw0)
  next
    case False
    then obtain a' x where a: "a = a' @ [x]" by (metis rev_exhaust)
    show ?thesis
    proof (cases "x = CHR ''/''")
      case True
      with a nb show ?thesis by (simp add: basename_def path_join_def tw)
    next
      case False
      with a nb show ?thesis by (simp add: basename_def path_join_def tw)
    qed
  qed
qed

lemma str_int_nat_no_slash: "list_all (\<lambda>c. c \<noteq> CHR ''/'') (str_int (int i + 1))"
  using str_nat_no_slash by (simp add: str_int_def)

lemma extension_for_cases: "extension_for ct = ''.jpg'' \<or> extension_for ct = ''.png''"
  by (simp add: extension_for_def)

lemma image_name_no_slash:
  "list_all (\<lambda>c. c \<noteq> CHR ''/'') ((''image_'' @ str_int (int i + 1)) @ extension_for ct)"
  using str_int_nat_no_slash [of i] extension_for_cases [of ct] by auto

lemma download_image_name:
  assumes "snd (download_image w u fp (''image_'' @ str_int (int i + 1)) fs) = Some f"
  shows "f = ''image_'' @ str_int (int i + 1) @ ''.jpg'' \<or> f = ''image_'' @ str_int (int i + 1) @ ''.png''"
proof -
  from assms obtain r where r: "http_get w u = Inr r"
    and f: "f = basename (path_join fp ((''image_'' @ str_int (int i + 1)) @ extension_for (content_type r)))"
    by (auto simp: download_image_def download_image_try_def Let_def
        split: sum.splits prod.splits option.splits if_splits)
  from f have "f = (''image_'' @ str_int (int i + 1)) @ extension_for (content_type r)"
    by (simp only: basename_path_join [OF image_name_no_slash])
  with extension_for_cases [of "content_type r"] show ?thesis by auto
qed

lemma download_images_paths:
  "snd (download_images w lf fn i imgs (fs, paths))
     = paths @ List.map_filter (asset_reference w lf fn) (zip [i..<i + length imgs] imgs)"
proof (induction imgs arbitrary: i fs paths)
  case Nil
  show ?case by simp
next
  case (Cons img imgs)
  have up: "[i..<i + length (img # imgs)] = i # [Suc i..<Suc i + length imgs]"
    by (simp add: upt_rec)
  have ind: "snd (download_image w u lf n fs) = snd (download_image w u lf n (\<lambda>path. None))" for u n
    by (rule download_image_snd_indep)
  show ?case
    unfolding up
    by (cases "download_image w (the (projr img)) lf (''image_'' @ str_int (int i + 1)) fs")
       (auto simp: asset_reference_def Cons.IH ind [symmetric]
          split: sum.splits option.splits prod.splits)
qed


lemma str_int_small: "str_int 1 = ''1''" "str_int 2 = ''2''" "str_int 3 = ''3''"
  by code_simp+

lemma download_image_fs_any:
  assumes "snd (download_image w u fp n fs0) = r"
  shows "\<exists>fs'. download_image w u fp n fs = (fs', r)"
  using assms download_image_snd_indep [of w u fp n fs fs0]
  by (cases "download_image w u fp n fs") simp

text \<open>
  Claim C7. The paths recorded for a list of image elements are the asset references of
  the elements, in order, each computed from the element's index in the discovered list:
  an element gives a path exactly when its download returns a file name, and the path is
  the folder name joined with \<^verbatim>\<open>image_\<close>, the index plus one and the extension. A
  failed download gives no path and does not shift or stop the others: for three URLs of
  which the second fails, exactly the paths numbered 1 and 3 are returned.
\<close>

theorem image_harvest_positions:
  "snd (download_images w lf fn 0 imgs (fs, []))
     = List.map_filter (asset_reference w lf fn) (zip [0..<length imgs] imgs)
   \<and> (asset_reference w lf fn (i, img) = Some ref \<longrightarrow>
        ref = path_join fn (''image_'' @ str_int (int i + 1) @ ''.jpg'')
        \<or> ref = path_join fn (''image_'' @ str_int (int i + 1) @ ''.png''))
   \<and> (u1 \<noteq> [] \<and> u2 \<noteq> [] \<and> u3 \<noteq> []
       \<and> snd (download_image w u1 lf ''image_1'' fs1) = Some f1
       \<and> snd (download_image w u2 lf ''image_2'' fs2) = None
       \<and> snd (download_image w u3 lf ''image_3'' fs3) = Some f3 \<longrightarrow>
        snd (download_images w lf fn 0 [Inr (Some u1), Inr (Some u2), Inr (Some u3)] (fs, []))
          = [path_join fn f1, path_join fn f3]
        \<and> (f1 = ''image_1.jpg'' \<or> f1 = ''image_1.png'')
        \<and> (f3 = ''image_3.jpg'' \<or> f3 = ''image_3.png''))"
proof (intro conjI impI)
  show "snd (download_images w lf fn 0 imgs (fs, []))
     = List.map_filter (asset_reference w lf fn) (zip [0..<length imgs] imgs)"
    using download_images_paths [of w lf fn 0 imgs fs "[]"] by simp
next
  assume a: "asset_reference w lf fn (i, img) = Some ref"
  then obtain src f where
    f: "snd (download_image w src lf (''image_'' @ str_int (int i + 1)) (\<lambda>path. None)) = Some f"
    and ref: "ref = path_join fn f"
    by (auto simp: asset_reference_def split: sum.splits option.splits if_splits)
  from download_image_name [OF f] ref
  show "ref = path_join fn (''image_'' @ str_int (int i + 1) @ ''.jpg'')
        \<or> ref = path_join fn (''image_'' @ str_int (int i + 1) @ ''.png'')"
    by auto
next
  assume h: "u1 \<noteq> [] \<and> u2 \<noteq> [] \<and> u3 \<noteq> []
       \<and> snd (download_image w u1 lf ''image_1'' fs1) = Some f1
       \<and> snd (download_image w u2 lf ''image_2'' fs2) = None
       \<and> snd (download_image w u3 lf ''image_3'' fs3) = Some f3"
  from h download_image_name [of w u1 lf 0 fs1 f1]
  have f1: "f1 = ''image_1.jpg'' \<or> f1 = ''image_1.png''"
    by (simp add: str_int_small)
  from h download_image_name [of w u3 lf 2 fs3 f3]
  have f3: "f3 = ''image_3.jpg'' \<or> f3 = ''image_3.png''"
    by (simp add: str_int_small)
  from h obtain fsa where d1: "download_image w u1 lf ''image_1'' fs = (fsa, Some f1)"
    using download_image_fs_any [of w u1 lf "''image_1''" fs1 "Some f1" fs] by auto
  from h obtain fsb where d2: "download_image w u2 lf ''image_2'' fsa = (fsb, None)"
    using download_image_fs_any [of w u2 lf "''image_2''" fs2 None fsa] by auto
  from h obtain fsc where d3: "download_image w u3 lf ''image_3'' fsb = (fsc, Some f3)"
    using download_image_fs_any [of w u3 lf "''image_3''" fs3 "Some f3" fsb] by auto
  from f1 have ne1: "f1 \<noteq> []" by auto
  from f3 have ne3: "f3 \<noteq> []" by auto
  show "snd (download_images w lf fn 0 [Inr (Some u1), Inr (Some u2), Inr (Some u3)] (fs, []))
          = [path_join fn f1, path_join fn f3]"
    using h d1 d2 d3 ne1 ne3 by (simp add: str_int_small)
  show "f1 = ''image_1.jpg'' \<or> f1 = ''image_1.png''" by (rule f1)
  show "f3 = ''image_3.jpg'' \<or> f3 = ''image_3.png''" by (rule f3)
qed

theorem image_harvest_positions_witness:
  "snd (download_images world_u2_breaks ''../data/avito/images/1_Dacia_Logan'' ''1_Dacia_Logan'' 0
          [Inr (Some ''u1''), Inr (Some ''u2''), Inr (Some ''u3'')] (no_files, []))
     = [''1_Dacia_Logan/image_1.jpg'', ''1_Dacia_Logan/image_3.jpg'']"
proof -
  let ?lf = "''../data/avito/images/1_Dacia_Logan''"
  have h: "''u1'' \<noteq> [] \<and> ''u2'' \<noteq> [] \<and> ''u3'' \<noteq> []
       \<and> snd (download_image world_u2_breaks ''u1'' ?lf ''image_1'' no_files) = Some ''image_1.jpg''
       \<and> snd (download_image world_u2_breaks ''u2'' ?lf ''image_2'' no_files) = None
       \<and> snd (download_image world_u2_breaks ''u3'' ?lf ''image_3'' no_files) = Some ''image_3.jpg''"
    by code_simp
  have p: "path_join ''1_Dacia_Logan'' ''image_1.jpg'' = ''1_Dacia_Logan/image_1.jpg''"
    "path_join ''1_Dacia_Logan'' ''image_3.jpg'' = ''1_Dacia_Logan/image_3.jpg''"
    by code_simp+
  from image_harvest_positions [of world_u2_breaks ?lf "''1_Dacia_Logan''" "[]" no_files
      0 "Inl OSError" "[]" "''u1''" "''u2''" "''u3''" no_files "''image_1.jpg''" no_files no_files
      "''image_3.jpg''"] h p
  show ?thesis by simp
qed

text \<open>
  Claim C10. \<^verbatim>\<open>download_image\<close> returns on every input. Whatever raises inside it (the
  request, the status check, the opening of the file, a write, the stream of the body),
  it returns no file name, and the caller's list of paths is left as it was. When the
  request, the status check or the opening raises, the disk is unchanged. When a write or
  the stream raises, the file has been opened: it stays on disk, holding the chunks
  written before the exception.
\<close>

theorem download_image_total:
  fixes w u fp n fs r
  defines "path \<equiv> path_join fp (n @ extension_for (content_type r))"
  defines "k \<equiv> written_chunks w path 0 (length (body_chunks r))"
  shows
  "(http_get w u = Inl e \<longrightarrow> download_image w u fp n fs = (fs, None))
   \<and> (http_get w u = Inr r \<and> status_raises r \<longrightarrow> download_image w u fp n fs = (fs, None))
   \<and> (http_get w u = Inr r \<and> \<not> status_raises r \<and> open_raises w path \<longrightarrow>
        download_image w u fp n fs = (fs, None))
   \<and> (http_get w u = Inr r \<and> \<not> status_raises r \<and> \<not> open_raises w path
       \<and> (k < length (body_chunks r) \<or> body_raises r) \<longrightarrow>
        download_image w u fp n fs = (fs(path \<mapsto> concat (take k (body_chunks r))), None))
   \<and> (img_src \<noteq> [] \<and> snd (download_image w img_src lf (''image_'' @ str_int (int i + 1)) fs) = None \<longrightarrow>
        snd (download_images w lf fn i [Inr (Some img_src)] (fs, paths)) = paths)"
proof (intro conjI impI)
  assume "http_get w u = Inl e"
  then show "download_image w u fp n fs = (fs, None)"
    by (simp add: download_image_def download_image_try_def)
next
  assume "http_get w u = Inr r \<and> status_raises r"
  then show "download_image w u fp n fs = (fs, None)"
    by (simp add: download_image_def download_image_try_def)
next
  assume "http_get w u = Inr r \<and> \<not> status_raises r \<and> open_raises w path"
  then show "download_image w u fp n fs = (fs, None)"
    by (simp add: download_image_def download_image_try_def path_def)
next
  assume h: "http_get w u = Inr r \<and> \<not> status_raises r \<and> \<not> open_raises w path
       \<and> (k < length (body_chunks r) \<or> body_raises r)"
  have "(fs(path \<mapsto> [])) path = Some []" by simp
  then have wc: "write_chunks w path 0 (body_chunks r) (fs(path \<mapsto> []))
      = ((fs(path \<mapsto> []))(path \<mapsto> [] @ concat (take k (body_chunks r))),
         if k < length (body_chunks r) then Some OSError else None)"
    unfolding k_def by (rule write_chunks_open)
  from h show "download_image w u fp n fs = (fs(path \<mapsto> concat (take k (body_chunks r))), None)"
    by (auto simp: download_image_def download_image_try_def Let_def path_def [symmetric] wc)
next
  assume h: "img_src \<noteq> [] \<and> snd (download_image w img_src lf (''image_'' @ str_int (int i + 1)) fs) = None"
  then show "snd (download_images w lf fn i [Inr (Some img_src)] (fs, paths)) = paths"
    by (cases "download_image w img_src lf (''image_'' @ str_int (int i + 1)) fs") simp
qed

theorem download_image_total_witness:
  "snd (download_image world_u2_breaks ''u2'' ''d'' ''image_2'' no_files) = None
   \<and> fst (download_image world_u2_breaks ''u2'' ''d'' ''image_2'' no_files) ''d/image_2.jpg''
       = Some ''abc''"
proof -
  let ?path = "path_join ''d'' (''image_2'' @ extension_for (content_type jpeg_broken))"
  let ?k = "written_chunks world_u2_breaks ?path 0 (length (body_chunks jpeg_broken))"
  have h: "http_get world_u2_breaks ''u2'' = Inr jpeg_broken \<and> \<not> status_raises jpeg_broken
      \<and> \<not> open_raises world_u2_breaks ?path
      \<and> (?k < length (body_chunks jpeg_broken) \<or> body_raises jpeg_broken)"
    by (simp add: world_u2_breaks_def jpeg_broken_def)
  have p: "?path = ''d/image_2.jpg''" by code_simp
  have c: "concat (take ?k (body_chunks jpeg_broken)) = ''abc''" by code_simp
  from download_image_total [where w = world_u2_breaks and u = "''u2''" and r = jpeg_broken
      and fp = "''d''" and n = "''image_2''" and fs = no_files] h
  have "download_image world_u2_breaks ''u2'' ''d'' ''image_2'' no_files
          = (no_files(?path \<mapsto> concat (take ?k (body_chunks jpeg_broken))), None)"
    by blast
  then show ?thesis
    unfolding c unfolding p by simp
qed

section \<open>Detail extraction\<close>

lemma assign_label_seller_city: "seller_city (assign_label l v f) = seller_city f"
  by (simp add: assign_label_def)

lemma assign_label_location:
  "location (assign_label l v f) = (if secteur_label l then v else location f)"
  by (simp add: assign_label_def secteur_label_def)

lemma scan_detail_seller_city: "seller_city (scan_detail d f) = seller_city f"
  by (simp add: scan_detail_def assign_label_seller_city split: sum.split)

lemma scan_details_seller_city: "seller_city (scan_details ds f) = seller_city f"
  by (induction ds arbitrary: f) (simp_all add: scan_detail_seller_city)

lemma scan_detail_location_other:
  "\<not> sets_location d \<Longrightarrow> location (scan_detail d f) = location f"
  by (auto simp: scan_detail_def sets_location_def assign_label_location split: sum.split)

lemma scan_details_location_other:
  "list_all (\<lambda>x. \<not> sets_location x) ds \<Longrightarrow> location (scan_details ds f) = location f"
  by (induction ds arbitrary: f) (simp_all add: scan_detail_location_other)

lemma scan_details_append:
  "scan_details (xs @ ys) f = scan_details ys (scan_details xs f)"
  by (induction xs arbitrary: f) simp_all

lemma read_category_keeps:
  "location (read_category s f) = location f" "seller_city (read_category s f) = seller_city f"
  by (simp_all add: read_category_def split: sum.split)

lemma read_equipment_keeps:
  "location (read_equipment s f) = location f" "seller_city (read_equipment s f) = seller_city f"
  by (simp_all add: read_equipment_def split: sum.split)

lemma first_segment:
  "(if CHR '','' \<in> set s then takeWhile (\<lambda>c. c \<noteq> CHR '','') s else s)
     = takeWhile (\<lambda>c. c \<noteq> CHR '','') s"
  by (induction s) auto

lemma length_fields_row: "length (fields_row f) = 12"
  by (simp add: fields_row_def)

text \<open>
  Claim C9, as amended. On a detail page that loads and scrolls, with the seller's
  location in the header and a labelled attribute whose label reaches the "Secteur" branch
  (it contains "Secteur" and none of the words tested before it) and which is the last
  such attribute of the page, the location column is the value of that attribute, and the
  seller-city column is the first comma-separated segment of the header text. The two
  columns come from different places of the page and can differ.
\<close>

theorem secteur_overrides_location:
  assumes "detail_get_raises (browser url) = None"
    and "\<not> makedirs_raises w (path_join (path_join (path_join ''..'' ''data'') ''avito'') ''images'')"
    and "\<not> makedirs_raises w
           (path_join (path_join (path_join (path_join ''..'' ''data'') ''avito'') ''images'') folder_name)"
    and "detail_scroll_raises (browser url) = None"
    and "location_span (browser url) = Inr (Inr header)"
    and "detail_divs (browser url) = Inr (ds1 @ d # ds2)"
    and "value_span d = Inr (Inr v)"
    and "label_span d = Inr (Inr l)"
    and "secteur_label (strip l)"
    and "list_all (\<lambda>x. \<not> sets_location x) ds2"
  shows "\<exists>fs' row. scrape_details w browser url folder_name fs = (fs', Inr row)
           \<and> length row = 13
           \<and> row ! 1 = strip v
           \<and> row ! 11 = takeWhile (\<lambda>c. c \<noteq> CHR '','') (strip header)"
proof -
  let ?p = "browser url"
  let ?f0 = "read_location (location_span ?p) unknown_fields"
  have city0: "seller_city ?f0 = takeWhile (\<lambda>c. c \<noteq> CHR '','') (strip header)"
    using assms(5) by (simp add: read_location_def Let_def first_segment)
  have d: "location (scan_detail d g) = strip v" for g
    using assms(7,8,9) by (simp add: scan_detail_def assign_label_location)
  have loc1: "location (scan_details (ds1 @ d # ds2) ?f0) = strip v"
    using assms(10) by (simp add: scan_details_append scan_details_location_other d)
  have city1: "seller_city (scan_details (ds1 @ d # ds2) ?f0)
                 = takeWhile (\<lambda>c. c \<noteq> CHR '','') (strip header)"
    by (simp add: scan_details_seller_city city0)
  have loc: "location (extract_fields ?p) = strip v"
    using assms(6) loc1 by (simp add: extract_fields_def Let_def read_category_keeps read_equipment_keeps)
  have city: "seller_city (extract_fields ?p) = takeWhile (\<lambda>c. c \<noteq> CHR '','') (strip header)"
    using assms(6) city1 by (simp add: extract_fields_def Let_def read_category_keeps read_equipment_keeps)
  obtain fs' paths where h: "harvest_images w ?p
      (path_join (path_join (path_join (path_join ''..'' ''data'') ''avito'') ''images'') folder_name)
      folder_name fs = (fs', paths)"
    by (cases "harvest_images w ?p
      (path_join (path_join (path_join (path_join ''..'' ''data'') ''avito'') ''images'') folder_name)
      folder_name fs")
  have "scrape_details w browser url folder_name fs
          = (fs', Inr (fields_row (extract_fields ?p) @ [folder_name]))"
    using assms(1-4) h by (simp add: scrape_details_def Let_def)
  moreover have "(fields_row (extract_fields ?p) @ [folder_name]) ! 1 = strip v"
    using loc by (simp add: fields_row_def)
  moreover have "(fields_row (extract_fields ?p) @ [folder_name]) ! 11
                   = takeWhile (\<lambda>c. c \<noteq> CHR '','') (strip header)"
    using city by (simp add: fields_row_def)
  ultimately show ?thesis
    by (simp add: length_fields_row)
qed

theorem secteur_overrides_location_witness:
  "snd (scrape_details world_u2_breaks (\<lambda>url. detail_ok) ''https://www.avito.ma/a'' ''1_Dacia_Logan'' no_files)
     = Inr [''N/A'', ''Maarif'', ''N/A'', ''Dacia'', ''N/A'', ''N/A'', ''N/A'', ''N/A'', ''N/A'',
            ''N/A'', ''N/A'', ''Casablanca'', ''1_Dacia_Logan'']
   \<and> (\<exists>fs' row.
        scrape_details world_u2_breaks (\<lambda>url. detail_ok) ''https://www.avito.ma/a'' ''1_Dacia_Logan'' no_files
          = (fs', Inr row)
        \<and> length row = 13 \<and> row ! 1 = ''Maarif'' \<and> row ! 11 = ''Casablanca'')"
proof -
  let ?d = "\<lparr>value_span = Inr (Inr ''Maarif''), label_span = Inr (Inr ''Secteur'')\<rparr>"
  let ?b = "\<lparr>value_span = Inr (Inr ''Dacia''), label_span = Inr (Inr ''Marque'')\<rparr>"
  have a1: "detail_get_raises ((\<lambda>url. detail_ok) ''https://www.avito.ma/a'') = None"
    and a4: "detail_scroll_raises ((\<lambda>url. detail_ok) ''https://www.avito.ma/a'') = None"
    and a5: "location_span ((\<lambda>url. detail_ok) ''https://www.avito.ma/a'') = Inr (Inr ''Casablanca, Maroc'')"
    and a6: "detail_divs ((\<lambda>url. detail_ok) ''https://www.avito.ma/a'') = Inr ([?b] @ ?d # [])"
    by (simp_all add: detail_ok_def)
  have a2: "\<not> makedirs_raises world_u2_breaks
      (path_join (path_join (path_join ''..'' ''data'') ''avito'') ''images'')"
    and a3: "\<not> makedirs_raises world_u2_breaks
      (path_join (path_join (path_join (path_join ''..'' ''data'') ''avito'') ''images'') ''1_Dacia_Logan'')"
    by (simp_all add: world_u2_breaks_def)
  have a7: "value_span ?d = Inr (Inr ''Maarif'')" and a8: "label_span ?d = Inr (Inr ''Secteur'')"
    by simp_all
  have a9: "secteur_label (strip ''Secteur'')" by code_simp
  have a10: "list_all (\<lambda>x. \<not> sets_location x) []" by simp
  have s: "strip ''Maarif'' = ''Maarif''"
    "takeWhile (\<lambda>c. c \<noteq> CHR '','') (strip ''Casablanca, Maroc'') = ''Casablanca''"
    by code_simp+
  have run: "snd (scrape_details world_u2_breaks (\<lambda>url. detail_ok) ''https://www.avito.ma/a''
                ''1_Dacia_Logan'' no_files)
     = Inr [''N/A'', ''Maarif'', ''N/A'', ''Dacia'', ''N/A'', ''N/A'', ''N/A'', ''N/A'', ''N/A'',
            ''N/A'', ''N/A'', ''Casablanca'', ''1_Dacia_Logan'']"
    by code_simp
  have ex: "\<exists>fs' row.
        scrape_details world_u2_breaks (\<lambda>url. detail_ok) ''https://www.avito.ma/a'' ''1_Dacia_Logan'' no_files
          = (fs', Inr row)
        \<and> length row = 13 \<and> row ! 1 = ''Maarif'' \<and> row ! 11 = ''Casablanca''"
    using secteur_overrides_location [OF a1 a2 a3 a4 a5 a6 a7 a8 a9 a10, where fs = no_files]
    unfolding s .
  show ?thesis by (rule conjI [OF run ex])
qed

text \<open>
  The claim as first stated, for every label that contains "Secteur", fails: the label
  "Origine - Secteur" contains "Origine" too, which is tested first, so its value goes to
  the origin column and the location column keeps the header text.
\<close>

theorem secteur_overrides_location_counterexample:
  "location_span detail_both_words = Inr (Inr ''Casablanca, Maroc'')
   \<and> detail_divs detail_both_words
       = Inr [\<lparr>value_span = Inr (Inr ''Maarif''), label_span = Inr (Inr ''Origine - Secteur'')\<rparr>]
   \<and> str_in ''Secteur'' ''Origine - Secteur''
   \<and> snd (scrape_details world_u2_breaks (\<lambda>url. detail_both_words) ''https://www.avito.ma/a''
            ''1_Dacia_Logan'' no_files)
       = Inr [''N/A'', ''Casablanca, Maroc'', ''N/A'', ''N/A'', ''N/A'', ''N/A'', ''Maarif'', ''N/A'',
              ''N/A'', ''N/A'', ''N/A'', ''Casablanca'', ''1_Dacia_Logan'']"
proof -
  have "location_span detail_both_words = Inr (Inr ''Casablanca, Maroc'')"
    by (simp add: detail_both_words_def detail_ok_def)
  moreover have "detail_divs detail_both_words
       = Inr [\<lparr>value_span = Inr (Inr ''Maarif''), label_span = Inr (Inr ''Origine - Secteur'')\<rparr>]"
    by (simp add: detail_both_words_def)
  moreover have "str_in ''Secteur'' ''Origine - Secteur''"
    by code_simp
  moreover have "snd (scrape_details world_u2_breaks (\<lambda>url. detail_both_words) ''https://www.avito.ma/a''
            ''1_Dacia_Logan'' no_files)
       = Inr [''N/A'', ''Casablanca, Maroc'', ''N/A'', ''N/A'', ''N/A'', ''N/A'', ''Maarif'', ''N/A'',
              ''N/A'', ''N/A'', ''N/A'', ''Casablanca'', ''1_Dacia_Logan'']"
    by code_simp
  ultimately show ?thesis by (intro conjI)
qed

section \<open>Failures of a detail visit\<close>

lemma scrape_details_navigation_raises:
  "detail_get_raises (browser url) = Some e \<Longrightarrow>
   scrape_details w browser url folder_name fs = (fs, Inl e)"
  by (simp add: scrape_details_def)

lemma scrape_details_scroll_raises:
  assumes "detail_get_raises (browser url) = None"
    and "\<forall>path. \<not> makedirs_raises w path"
    and "detail_scroll_raises (browser url) = Some e"
  shows "scrape_details w browser url folder_name fs
           = (fs, Inr (replicate 12 ''N/A'' @ [folder_name]))"
  using assms by (simp add: scrape_details_def Let_def)

lemma process_rows_navigation_raises:
  assumes "item row 8 = Inr url" and "item row 9 = Inr folder_name"
    and "detail_get_raises (browser url) = Some e"
  shows "process_rows w browser (row # rows) fs acc = (fs, Inl e)"
  using assms by (simp add: scrape_details_navigation_raises)

text \<open>
  Claim C1 fails on the code. \<^verbatim>\<open>driver.get(url)\<close> stands before the \<^verbatim>\<open>try\<close> of
  \<^verbatim>\<open>scrape_details\<close>, and \<^verbatim>\<open>process_detailed_data\<close> calls \<^verbatim>\<open>scrape_details\<close> outside any
  \<^verbatim>\<open>try\<close>. With two listings of which the second one's page times out at navigation, the
  exception leaves \<^verbatim>\<open>scrape_details\<close> and then \<^verbatim>\<open>process_detailed_data\<close>: no all-unknown
  record is made, and no table is returned for writing, not even the first listing's row.
\<close>

theorem navigation_failure_propagates:
  "detail_get_raises (browser_second_times_out ''https://www.avito.ma/b'') = Some TimeoutException
   \<and> snd (scrape_details world_u2_breaks browser_second_times_out ''https://www.avito.ma/b''
            ''2_Renault_Clio'' no_files) = Inl TimeoutException
   \<and> snd (process_detailed_data world_u2_breaks browser_second_times_out basic_csv_rows no_files)
       = Inl TimeoutException"
  by code_simp

section \<open>The shape of the table\<close>

lemma scrape_details_complete_length:
  "scrape_details_complete w browser url folder_name fs = (fs', Inr details) \<Longrightarrow>
   length details = 14"
  by (auto simp: scrape_details_complete_def Let_def length_fields_row
      split: option.splits if_splits prod.splits)

lemma scrape_details_length:
  "scrape_details w browser url folder_name fs = (fs', Inr details) \<Longrightarrow> length details = 13"
  by (auto simp: scrape_details_def Let_def length_fields_row
      split: option.splits if_splits prod.splits)

lemma length_complete_headers: "length complete_headers = 21"
  by (simp add: complete_headers_def)

text \<open>
  Claim C2 fails on the code of \<^verbatim>\<open>avito_scraper.py\<close>. A row is the first eight columns of
  the basic row followed by the fourteen values of \<^verbatim>\<open>scrape_details\<close>, the last of which
  is the joined image paths: twenty-two columns. \<^verbatim>\<open>complete_headers\<close> has twenty-one
  names and ends with the folder column: the image-paths column has no name.
\<close>

theorem header_row_shorter_than_rows:
  "map_sum id (\<lambda>(headers, rows). (length headers, map length rows, map last rows))
     (main_table world_u2_breaks (\<lambda>url. detail_ok) basic_rows no_files)
     = Inr (21, [22], [StrCell ''1_Dacia_Logan/image_1.jpg, 1_Dacia_Logan/image_3.jpg''])"
  by code_simp

section \<open>Field resolution\<close>







end
